theory Spec2Isabelle
  imports Complex_Main
begin

section \<open>SAGAN: losses, utilities and the instance-noise schedule\<close>

text \<open>
  The sources are \<^verbatim>\<open>src/v1/SAGAN/layers.py\<close> and \<^verbatim>\<open>src/v1/SAGAN/sagan.py\<close>.
  A raised exception is an error value. The numbers of the configuration and of the
  logged histories are idealised as real numbers. The elements of tensors are floats
  with their three special values (see \<open>fl\<close> below).
\<close>

datatype py_error =
    ZeroDivisionError
  | StatisticsError
  | IndexError
  | UnboundLocalError
  | FileNotFoundError
  | RuntimeError
  | ValueError

subsection \<open>Floats\<close>

text \<open>
  An element of a tensor is a finite number, one of the two infinities, or NaN. The
  operations follow IEEE 754 on the special values (NaN propagates, \<open>0 * inf\<close>,
  \<open>inf - inf\<close>, \<open>0 / 0\<close> and \<open>inf / inf\<close> are NaN). On finite numbers they are
  taken exactly: rounding, overflow to an infinity and the sign of zero are not
  modelled.
\<close>

datatype fl = Fin real | PInf | NInf | NaN

fun fl_neg :: "fl \<Rightarrow> fl" where
  "fl_neg (Fin a) = Fin (- a)"
| "fl_neg PInf = NInf"
| "fl_neg NInf = PInf"
| "fl_neg NaN = NaN"

fun fl_add :: "fl \<Rightarrow> fl \<Rightarrow> fl" where
  "fl_add (Fin a) (Fin b) = Fin (a + b)"
| "fl_add NaN y = NaN"
| "fl_add x NaN = NaN"
| "fl_add PInf NInf = NaN"
| "fl_add NInf PInf = NaN"
| "fl_add PInf y = PInf"
| "fl_add x PInf = PInf"
| "fl_add NInf y = NInf"
| "fl_add x NInf = NInf"

definition fl_sub :: "fl \<Rightarrow> fl \<Rightarrow> fl" where
  "fl_sub x y = fl_add x (fl_neg y)"

fun fl_mul :: "fl \<Rightarrow> fl \<Rightarrow> fl" where
  "fl_mul (Fin a) (Fin b) = Fin (a * b)"
| "fl_mul NaN y = NaN"
| "fl_mul x NaN = NaN"
| "fl_mul (Fin a) PInf = (if a = 0 then NaN else if 0 < a then PInf else NInf)"
| "fl_mul (Fin a) NInf = (if a = 0 then NaN else if 0 < a then NInf else PInf)"
| "fl_mul PInf (Fin b) = (if b = 0 then NaN else if 0 < b then PInf else NInf)"
| "fl_mul NInf (Fin b) = (if b = 0 then NaN else if 0 < b then NInf else PInf)"
| "fl_mul PInf PInf = PInf"
| "fl_mul NInf NInf = PInf"
| "fl_mul PInf NInf = NInf"
| "fl_mul NInf PInf = NInf"

fun fl_div :: "fl \<Rightarrow> fl \<Rightarrow> fl" where
  "fl_div (Fin a) (Fin b) =
     (if b \<noteq> 0 then Fin (a / b) else if a = 0 then NaN else if 0 < a then PInf else NInf)"
| "fl_div NaN y = NaN"
| "fl_div x NaN = NaN"
| "fl_div (Fin a) PInf = Fin 0"
| "fl_div (Fin a) NInf = Fin 0"
| "fl_div PInf (Fin b) = (if 0 \<le> b then PInf else NInf)"
| "fl_div NInf (Fin b) = (if 0 \<le> b then NInf else PInf)"
| "fl_div PInf PInf = NaN"
| "fl_div PInf NInf = NaN"
| "fl_div NInf PInf = NaN"
| "fl_div NInf NInf = NaN"

fun fl_exp :: "fl \<Rightarrow> fl" where
  "fl_exp (Fin a) = Fin (exp a)"
| "fl_exp PInf = PInf"
| "fl_exp NInf = Fin 0"
| "fl_exp NaN = NaN"

text \<open>The comparison \<open><=\<close> of floats: false whenever a side is NaN.\<close>

fun fl_le :: "fl \<Rightarrow> fl \<Rightarrow> bool" where
  "fl_le (Fin a) (Fin b) = (a \<le> b)"
| "fl_le NaN y = False"
| "fl_le x NaN = False"
| "fl_le NInf y = True"
| "fl_le x PInf = True"
| "fl_le x NInf = False"
| "fl_le PInf y = False"

text \<open>The sum of the elements of a list, starting from 0.\<close>

definition fl_sum :: "fl list \<Rightarrow> fl" where
  "fl_sum xs = foldr fl_add xs (Fin 0)"

text \<open>A finite number: neither an infinity nor NaN.\<close>

fun is_fin :: "fl \<Rightarrow> bool" where
  "is_fin (Fin a) = True"
| "is_fin PInf = False"
| "is_fin NInf = False"
| "is_fin NaN = False"

subsection \<open>Elementwise tensor operations of \<^verbatim>\<open>layers.py\<close>\<close>

text \<open>
  The loss functions and \<^verbatim>\<open>denorm\<close> act on every element of a tensor and do not look
  at its shape, so a tensor is the list of its elements here.

  \<^verbatim>\<open>F.relu\<close> on one element: NaN stays NaN.
\<close>

fun fl_relu :: "fl \<Rightarrow> fl" where
  "fl_relu (Fin a) = Fin (max a 0)"
| "fl_relu PInf = PInf"
| "fl_relu NInf = Fin 0"
| "fl_relu NaN = NaN"

definition relu_t :: "fl list \<Rightarrow> fl list" where
  "relu_t xs = map fl_relu xs"

text \<open>
  \<^verbatim>\<open>torch.mean\<close> over all elements: their sum divided by their number. For a
  tensor with no element this is \<open>0 / 0\<close>, NaN.
\<close>

definition mean_t :: "fl list \<Rightarrow> fl" where
  "mean_t xs = fl_div (fl_sum xs) (Fin (real (length xs)))"

text \<open>\<^verbatim>\<open>d_loss_real = torch.mean(F.relu(1.0 - d_real))\<close>\<close>

definition loss_hinge_dis_real :: "fl list \<Rightarrow> fl" where
  "loss_hinge_dis_real d_real = mean_t (relu_t (map (\<lambda>v. fl_sub (Fin 1) v) d_real))"

text \<open>\<^verbatim>\<open>d_loss_fake = torch.mean(F.relu(1.0 + d_fake))\<close>\<close>

definition loss_hinge_dis_fake :: "fl list \<Rightarrow> fl" where
  "loss_hinge_dis_fake d_fake = mean_t (relu_t (map (\<lambda>v. fl_add (Fin 1) v) d_fake))"

text \<open>
  \<^verbatim>\<open>g_loss = -torch.mean(d_fake)\<close>, on finite elements: the mean of a tensor with
  no element is NaN, for which \<open>None\<close> stands.
\<close>

definition torch_mean :: "real list \<Rightarrow> real option" where
  "torch_mean xs = (if xs = [] then None else Some (sum_list xs / real (length xs)))"

definition loss_hinge_gen :: "real list \<Rightarrow> real option" where
  "loss_hinge_gen d_fake = map_option uminus (torch_mean d_fake)"

text \<open>
  \<^verbatim>\<open>x.clamp_(lo, hi)\<close> on one element: a number becomes \<open>min (max v lo) hi\<close>, an
  infinity the bound on its side, and NaN stays NaN.
\<close>

fun fl_clamp :: "real \<Rightarrow> real \<Rightarrow> fl \<Rightarrow> fl" where
  "fl_clamp lo hi (Fin a) = Fin (min (max a lo) hi)"
| "fl_clamp lo hi PInf = Fin hi"
| "fl_clamp lo hi NInf = Fin lo"
| "fl_clamp lo hi NaN = NaN"

definition clamp_t :: "real \<Rightarrow> real \<Rightarrow> fl list \<Rightarrow> fl list" where
  "clamp_t lo hi xs = map (fl_clamp lo hi) xs"

text \<open>\<^verbatim>\<open>out = (x + 1) / 2; return out.clamp_(0, 1)\<close>\<close>

definition denorm :: "fl list \<Rightarrow> fl list" where
  "denorm x = clamp_t 0 1 (map (\<lambda>v. fl_div (fl_add v (Fin 1)) (Fin 2)) x)"

subsection \<open>The instance-noise schedule of \<^verbatim>\<open>SAGAN.train\<close>\<close>

text \<open>
  \<^verbatim>\<open>inst_noise_sigma_curr = 0 if step > self.inst_noise_sigma_iters else
      (1 - step/self.inst_noise_sigma_iters)*self.inst_noise_sigma\<close>

  \<open>step\<close> is the variable of \<^verbatim>\<open>for step in range(step_per_epoch)\<close>, a natural
  number. The division is Python's true division and raises when the divisor is 0;
  it is only evaluated in the else branch.
\<close>

definition inst_noise_sigma_curr :: "real \<Rightarrow> int \<Rightarrow> nat \<Rightarrow> py_error + real" where
  "inst_noise_sigma_curr sigma sigma_iters step =
     (if int step > sigma_iters then Inr 0
      else if sigma_iters = 0 then Inl ZeroDivisionError
      else Inr ((1 - real step / real_of_int sigma_iters) * sigma))"

subsection \<open>Python helpers\<close>

text \<open>Sequencing of statements that may raise: the first exception ends the run.\<close>

definition and_then :: "py_error + 'a \<Rightarrow> ('a \<Rightarrow> py_error + 'b) \<Rightarrow> py_error + 'b" where
  "and_then r f = (case r of Inl e \<Rightarrow> Inl e | Inr x \<Rightarrow> f x)"

text \<open>\<^verbatim>\<open>for i in xs: body\<close>, the body acting on the state.\<close>

primrec for_loop :: "'i list \<Rightarrow> ('i \<Rightarrow> 's \<Rightarrow> py_error + 's) \<Rightarrow> 's \<Rightarrow> py_error + 's" where
  "for_loop [] body s = Inr s"
| "for_loop (i # is) body s = and_then (body i s) (for_loop is body)"

text \<open>\<^verbatim>\<open>range(a, b)\<close> on Python integers.\<close>

definition py_range :: "int \<Rightarrow> int \<Rightarrow> int list" where
  "py_range a b = [a..b - 1]"

text \<open>
  \<^verbatim>\<open>int(a / b)\<close> for an integer \<open>a\<close> and a length \<open>b\<close>: true division, then
  truncation toward zero. (The quotient is taken exactly; a float quotient agrees with it
  below \<open>2^53\<close>.)
\<close>

definition py_int_truediv :: "int \<Rightarrow> nat \<Rightarrow> py_error + int" where
  "py_int_truediv a b =
     (if b = 0 then Inl ZeroDivisionError
      else if 0 \<le> a then Inr (a div int b) else Inr (- ((- a) div int b)))"

text \<open>\<^verbatim>\<open>a % b == 0\<close> on Python integers.\<close>

definition py_divides :: "int \<Rightarrow> int \<Rightarrow> py_error + bool" where
  "py_divides a b = (if b = 0 then Inl ZeroDivisionError else Inr (a mod b = 0))"

text \<open>\<^verbatim>\<open>xs[i]\<close>: a negative index counts from the end.\<close>

definition py_index :: "'a list \<Rightarrow> int \<Rightarrow> py_error + 'a" where
  "py_index xs i =
     (if 0 \<le> i \<and> i < int (length xs) then Inr (xs ! nat i)
      else if i < 0 \<and> - int (length xs) \<le> i then Inr (xs ! nat (int (length xs) + i))
      else Inl IndexError)"

text \<open>\<^verbatim>\<open>statistics.mean(xs)\<close>\<close>

definition py_mean :: "real list \<Rightarrow> py_error + real" where
  "py_mean xs = (if xs = [] then Inl StatisticsError else Inr (sum_list xs / real (length xs)))"

text \<open>\<^verbatim>\<open>"{}".format(n)\<close> for an integer \<open>n\<close>: its decimal digits, with a sign.\<close>

fun str_nat :: "nat \<Rightarrow> string" where
  "str_nat n = (if n < 10 then [char_of (48 + n)] else str_nat (n div 10) @ [char_of (48 + n mod 10)])"

declare str_nat.simps [simp del]

definition str_int :: "int \<Rightarrow> string" where
  "str_int i = (if i < 0 then CHR ''-'' # str_nat (nat (- i)) else str_nat (nat i))"

text \<open>\<^verbatim>\<open>os.path.join(a, b)\<close> for a second part that is not absolute.\<close>

definition path_join :: "string \<Rightarrow> string \<Rightarrow> string" where
  "path_join a b = (if a = [] then b else if last a = CHR ''/'' then a @ b else a @ CHR ''/'' # b)"

subsection \<open>Tensors, state dictionaries and checkpoints\<close>

record tensor =
  shape :: "nat list"
  elems :: "fl list"

text \<open>
  A module's \<^verbatim>\<open>state_dict()\<close>: its parameters by name, in the module's order.
  An optimizer's \<^verbatim>\<open>state_dict()\<close>: the sizes of its parameter groups and the
  per-parameter state (for Adam the step count and the two moment estimates), by the
  parameter's position.
\<close>

type_synonym state_dict = "(string \<times> tensor) list"

record optimizer_state =
  param_groups :: "nat list"
  moments :: "(nat \<times> tensor list) list"



text \<open>The dictionary given to \<^verbatim>\<open>torch.save\<close> in \<^verbatim>\<open>SAGAN.train\<close>.\<close>

record checkpoint =
  gen_state_dict :: state_dict
  disc_state_dict :: state_dict
  gen_optimizer :: optimizer_state
  disc_optimizer :: optimizer_state
  ck_ave_d_losses :: "real list"
  ck_ave_d_losses_real :: "real list"
  ck_ave_d_losses_fake :: "real list"
  ck_ave_d_gamma1 :: "real list"
  ck_ave_d_gamma2 :: "real list"
  ck_ave_g_losses :: "real list"
  ck_ave_g_gamma1 :: "real list"
  ck_ave_g_gamma2 :: "real list"


subsection \<open>The training run of \<^verbatim>\<open>sagan.py\<close>\<close>

text \<open>
  The attributes copied from \<^verbatim>\<open>configs\<close> in \<^verbatim>\<open>SAGAN.__init__\<close> that the
  training loop and the checkpoints read. \<^verbatim>\<open>pretrained_model\<close> is \<open>None\<close> or the
  number of the epoch to resume from.
\<close>

record config =
  total_steps :: int
  d_iters :: int
  g_iters :: int
  inst_noise_sigma :: real
  inst_noise_sigma_iters :: int
  log_step :: int
  save_epoch :: int
  model_path :: string
  pretrained_model :: "int option"

text \<open>
  A gradient is kept as the list of the backpropagations that were accumulated into it
  since it was last zeroed: each is named by the epoch, the step, the index of the
  iteration of the inner loop, and the loss that was backpropagated.
\<close>

datatype pass = RealPass | FakePass | GenPass

datatype backprop = Backprop int nat nat pass

text \<open>The eight numbers appended to the local lists at a logging step.\<close>

record metrics =
  m_d_loss :: real
  m_d_loss_real :: real
  m_d_loss_fake :: real
  m_d_gamma1 :: real
  m_d_gamma2 :: real
  m_g_loss :: real
  m_g_gamma1 :: real
  m_g_gamma2 :: real

text \<open>
  The numerics of the networks are not part of the model: the update an Adam step makes
  from a gradient, and the numbers \<^verbatim>\<open>.item()\<close> reads at a logging step, are
  given from outside.
\<close>

record backend =
  adam_D :: "backprop list \<Rightarrow> state_dict \<Rightarrow> optimizer_state \<Rightarrow> state_dict \<times> optimizer_state"
  adam_G :: "backprop list \<Rightarrow> state_dict \<Rightarrow> optimizer_state \<Rightarrow> state_dict \<times> optimizer_state"
  items :: "int \<Rightarrow> nat \<Rightarrow> metrics"

text \<open>
  The \<^verbatim>\<open>SAGAN\<close> object and what its run leaves behind. \<open>net_G\<close> and \<open>net_D\<close>
  are the parameters of \<^verbatim>\<open>self.G\<close> and \<^verbatim>\<open>self.D\<close>, \<open>g_grad\<close> and \<open>d_grad\<close>
  the gradients held by these parameters, \<open>disk\<close> the files under the model path.
  The last four fields record the run: the standard deviation filled into
  \<^verbatim>\<open>inst_noise_std\<close> at every step, the gradient every optimizer step was taken
  on, and the epochs whose body ran to its end.
\<close>

record sagan =
  net_G :: state_dict
  net_D :: state_dict
  g_optimizer :: optimizer_state
  d_optimizer :: optimizer_state
  g_grad :: "backprop list"
  d_grad :: "backprop list"
  ave_d_losses :: "real list"
  ave_d_losses_real :: "real list"
  ave_d_losses_fake :: "real list"
  ave_d_gamma1 :: "real list"
  ave_d_gamma2 :: "real list"
  ave_g_losses :: "real list"
  ave_g_gamma1 :: "real list"
  ave_g_gamma2 :: "real list"
  disk :: "string \<rightharpoonup> checkpoint"
  noise_log :: "(int \<times> nat \<times> real) list"
  d_step_log :: "backprop list list"
  g_step_log :: "backprop list list"
  epoch_log :: "int list"

text \<open>\<^verbatim>\<open>os.path.join(self.model_path, "{}_sagan.pth".format(n))\<close>\<close>

definition checkpoint_path :: "config \<Rightarrow> int \<Rightarrow> string" where
  "checkpoint_path cfg n = path_join (model_path cfg) (str_int n @ ''_sagan.pth'')"



text \<open>\<^verbatim>\<open>SAGAN.reset_grad\<close>: both optimizers zero the gradients of their parameters.\<close>

definition reset_grad :: "sagan \<Rightarrow> sagan" where
  "reset_grad s = s\<lparr>g_grad := [], d_grad := []\<rparr>"

text \<open>
  \<^verbatim>\<open>torch.normal(mean=inst_noise_mean, std=inst_noise_std)\<close>, every element of the
  second tensor being \<open>std\<close>: torch raises on a negative standard deviation.
\<close>

definition torch_normal :: "real \<Rightarrow> py_error + unit" where
  "torch_normal std = (if std < 0 then Inl RuntimeError else Inr ())"

text \<open>
  One iteration of \<^verbatim>\<open>for _ in range(self.d_iters)\<close>. The real loss depends on the
  discriminator alone; the fake loss on the discriminator and, through
  \<^verbatim>\<open>fake_images = self.G(z)\<close>, on the generator.
\<close>

definition d_iteration :: "int \<Rightarrow> nat \<Rightarrow> real \<Rightarrow> nat \<Rightarrow> sagan \<Rightarrow> py_error + sagan" where
  "d_iteration epoch step std i s =
     (let s1 = reset_grad s in
      and_then (torch_normal std) (\<lambda>_.
      let s2 = s1\<lparr>d_grad := d_grad s1 @ [Backprop epoch step i RealPass]\<rparr> in
      and_then (torch_normal std) (\<lambda>_.
      Inr (s2\<lparr>d_grad := d_grad s2 @ [Backprop epoch step i FakePass],
               g_grad := g_grad s2 @ [Backprop epoch step i FakePass]\<rparr>))))"

text \<open>\<^verbatim>\<open>self.d_optimizer.step()\<close>\<close>

definition d_optimizer_step :: "backend \<Rightarrow> sagan \<Rightarrow> sagan" where
  "d_optimizer_step B s =
     (case adam_D B (d_grad s) (net_D s) (d_optimizer s) of
        (d, opt) \<Rightarrow> s\<lparr>net_D := d, d_optimizer := opt, d_step_log := d_step_log s @ [d_grad s]\<rparr>)"

text \<open>The discriminator phase of a step: the loop, then the optimizer step after it.\<close>

definition d_phase :: "backend \<Rightarrow> config \<Rightarrow> int \<Rightarrow> nat \<Rightarrow> real \<Rightarrow> sagan \<Rightarrow> py_error + sagan" where
  "d_phase B cfg epoch step std s =
     and_then (for_loop [0..<nat (d_iters cfg)] (d_iteration epoch step std) s) (\<lambda>s1.
     Inr (d_optimizer_step B s1))"

text \<open>One iteration of \<^verbatim>\<open>for _ in range(self.g_iters)\<close>.\<close>

definition g_iteration :: "int \<Rightarrow> nat \<Rightarrow> real \<Rightarrow> nat \<Rightarrow> sagan \<Rightarrow> py_error + sagan" where
  "g_iteration epoch step std i s =
     (let s1 = reset_grad s in
      and_then (torch_normal std) (\<lambda>_.
      Inr (s1\<lparr>g_grad := g_grad s1 @ [Backprop epoch step i GenPass],
               d_grad := d_grad s1 @ [Backprop epoch step i GenPass]\<rparr>)))"

text \<open>\<^verbatim>\<open>self.g_optimizer.step()\<close>\<close>

definition g_optimizer_step :: "backend \<Rightarrow> sagan \<Rightarrow> sagan" where
  "g_optimizer_step B s =
     (case adam_G B (g_grad s) (net_G s) (g_optimizer s) of
        (g, opt) \<Rightarrow> s\<lparr>net_G := g, g_optimizer := opt, g_step_log := g_step_log s @ [g_grad s]\<rparr>)"

definition g_phase :: "backend \<Rightarrow> config \<Rightarrow> int \<Rightarrow> nat \<Rightarrow> real \<Rightarrow> sagan \<Rightarrow> py_error + sagan" where
  "g_phase B cfg epoch step std s =
     and_then (for_loop [0..<nat (g_iters cfg)] (g_iteration epoch step std) s) (\<lambda>s1.
     Inr (g_optimizer_step B s1))"

text \<open>
  The body of \<^verbatim>\<open>for step in range(step_per_epoch)\<close>. The second component is the
  eight local lists of the epoch, which grow together. \<^verbatim>\<open>d_loss\<close> and
  \<^verbatim>\<open>g_loss\<close> are only bound inside the two inner loops.
\<close>

definition train_step ::
  "backend \<Rightarrow> config \<Rightarrow> int \<Rightarrow> nat \<Rightarrow> sagan \<times> metrics list \<Rightarrow> py_error + sagan \<times> metrics list" where
  "train_step B cfg epoch step st =
     (case st of (s, logs) \<Rightarrow>
      and_then (inst_noise_sigma_curr (inst_noise_sigma cfg) (inst_noise_sigma_iters cfg) step) (\<lambda>std.
      and_then (d_phase B cfg epoch step std (s\<lparr>noise_log := noise_log s @ [(epoch, step, std)]\<rparr>)) (\<lambda>s1.
      and_then (g_phase B cfg epoch step std s1) (\<lambda>s2.
      and_then (py_divides (int step + 1) (log_step cfg)) (\<lambda>hit.
      if hit then
        (if nat (d_iters cfg) = 0 \<or> nat (g_iters cfg) = 0 then Inl UnboundLocalError
         else Inr (s2, logs @ [items B epoch step]))
      else Inr (s2, logs))))))"

text \<open>The dictionary saved at the end of an epoch.\<close>

definition checkpoint_of :: "sagan \<Rightarrow> checkpoint" where
  "checkpoint_of s =
     \<lparr>gen_state_dict = net_G s, disc_state_dict = net_D s,
      gen_optimizer = g_optimizer s, disc_optimizer = d_optimizer s,
      ck_ave_d_losses = ave_d_losses s,
      ck_ave_d_losses_real = ave_d_losses_real s,
      ck_ave_d_losses_fake = ave_d_losses_fake s,
      ck_ave_d_gamma1 = ave_d_gamma1 s,
      ck_ave_d_gamma2 = ave_d_gamma2 s,
      ck_ave_g_losses = ave_g_losses s,
      ck_ave_g_gamma1 = ave_g_gamma1 s,
      ck_ave_g_gamma2 = ave_g_gamma2 s\<rparr>"

text \<open>\<^verbatim>\<open>if (epoch+1) % self.save_epoch == 0: torch.save({...}, path)\<close>\<close>

definition save_model :: "config \<Rightarrow> int \<Rightarrow> sagan \<Rightarrow> py_error + sagan" where
  "save_model cfg epoch s =
     and_then (py_divides (epoch + 1) (save_epoch cfg)) (\<lambda>hit.
     if hit then Inr (s\<lparr>disk := (disk s)(checkpoint_path cfg (epoch + 1) \<mapsto> checkpoint_of s)\<rparr>)
     else Inr s)"

text \<open>
  The eight \<^verbatim>\<open>self.ave_...[epoch]\<close> reads of the logging after an epoch, in the
  order of the \<^verbatim>\<open>add_scalar\<close> calls.
\<close>

definition read_averages :: "sagan \<Rightarrow> int \<Rightarrow> py_error + unit" where
  "read_averages s epoch =
     and_then (py_index (ave_d_losses s) epoch) (\<lambda>_.
     and_then (py_index (ave_d_losses_real s) epoch) (\<lambda>_.
     and_then (py_index (ave_d_losses_fake s) epoch) (\<lambda>_.
     and_then (py_index (ave_g_losses s) epoch) (\<lambda>_.
     and_then (py_index (ave_g_gamma1 s) epoch) (\<lambda>_.
     and_then (py_index (ave_g_gamma2 s) epoch) (\<lambda>_.
     and_then (py_index (ave_d_gamma1 s) epoch) (\<lambda>_.
     and_then (py_index (ave_d_gamma2 s) epoch) (\<lambda>_. Inr ()))))))))"

text \<open>
  \<^verbatim>\<open>self.ave_d_losses.append(mean(d_losses))\<close> and the seven appends after it. The
  eight local lists have one length, so only the first \<^verbatim>\<open>mean\<close> can raise.
\<close>

definition append_averages :: "metrics list \<Rightarrow> sagan \<Rightarrow> py_error + sagan" where
  "append_averages logs s =
     and_then (py_mean (map m_d_loss logs)) (\<lambda>a1.
     and_then (py_mean (map m_d_loss_real logs)) (\<lambda>a2.
     and_then (py_mean (map m_d_loss_fake logs)) (\<lambda>a3.
     and_then (py_mean (map m_d_gamma1 logs)) (\<lambda>a4.
     and_then (py_mean (map m_d_gamma2 logs)) (\<lambda>a5.
     and_then (py_mean (map m_g_loss logs)) (\<lambda>a6.
     and_then (py_mean (map m_g_gamma1 logs)) (\<lambda>a7.
     and_then (py_mean (map m_g_gamma2 logs)) (\<lambda>a8.
     Inr (s\<lparr>ave_d_losses := ave_d_losses s @ [a1],
              ave_d_losses_real := ave_d_losses_real s @ [a2],
              ave_d_losses_fake := ave_d_losses_fake s @ [a3],
              ave_d_gamma1 := ave_d_gamma1 s @ [a4],
              ave_d_gamma2 := ave_d_gamma2 s @ [a5],
              ave_g_losses := ave_g_losses s @ [a6],
              ave_g_gamma1 := ave_g_gamma1 s @ [a7],
              ave_g_gamma2 := ave_g_gamma2 s @ [a8]\<rparr>)))))))))"

text \<open>
  The body of \<^verbatim>\<open>for epoch in range(start_epoch, epochs)\<close>: the steps, the averages,
  the logging, the checkpoint. (Writing the sample image is left out.)
\<close>

definition train_epoch :: "backend \<Rightarrow> config \<Rightarrow> nat \<Rightarrow> int \<Rightarrow> sagan \<Rightarrow> py_error + sagan" where
  "train_epoch B cfg step_per_epoch epoch s =
     and_then (for_loop [0..<step_per_epoch] (train_step B cfg epoch) (s, [])) (\<lambda>st.
     and_then (append_averages (snd st) (fst st)) (\<lambda>s1.
     and_then (read_averages s1 epoch) (\<lambda>_.
     and_then (save_model cfg epoch s1) (\<lambda>s2.
     Inr (s2\<lparr>epoch_log := epoch_log s2 @ [epoch]\<rparr>)))))"

text \<open>\<^verbatim>\<open>start_epoch\<close>: the pretrained epoch when it is truthy, else 0.\<close>

definition start_epoch :: "config \<Rightarrow> int" where
  "start_epoch cfg = (case pretrained_model cfg of None \<Rightarrow> 0 | Some p \<Rightarrow> if p = 0 then 0 else p)"

text \<open>\<^verbatim>\<open>SAGAN.train\<close>, for a data loader of \<open>step_per_epoch\<close> batches.\<close>

definition train :: "backend \<Rightarrow> config \<Rightarrow> nat \<Rightarrow> sagan \<Rightarrow> py_error + sagan" where
  "train B cfg step_per_epoch s =
     and_then (py_int_truediv (total_steps cfg) step_per_epoch) (\<lambda>epochs.
     for_loop (py_range (start_epoch cfg) epochs) (train_epoch B cfg step_per_epoch) s)"


subsection \<open>The self-attention layer of \<^verbatim>\<open>layers.py\<close>\<close>

text \<open>
  A tensor is its shape and its elements in row-major order, as a contiguous torch tensor
  stores them; it is well formed when it has as many elements as its shape says.
\<close>

definition wf_tensor :: "tensor \<Rightarrow> bool" where
  "wf_tensor t = (length (elems t) = prod_list (shape t))"

definition at3 :: "tensor \<Rightarrow> nat \<Rightarrow> nat \<Rightarrow> nat \<Rightarrow> fl" where
  "at3 t i j k = elems t ! ((i * (shape t ! 1) + j) * (shape t ! 2) + k)"

definition at4 :: "tensor \<Rightarrow> nat \<Rightarrow> nat \<Rightarrow> nat \<Rightarrow> nat \<Rightarrow> fl" where
  "at4 t n c i j = elems t ! (((n * (shape t ! 1) + c) * (shape t ! 2) + i) * (shape t ! 3) + j)"

definition tabulate3 :: "nat \<Rightarrow> nat \<Rightarrow> nat \<Rightarrow> (nat \<Rightarrow> nat \<Rightarrow> nat \<Rightarrow> fl) \<Rightarrow> tensor" where
  "tabulate3 d0 d1 d2 e =
     \<lparr>shape = [d0, d1, d2],
      elems = concat (map (\<lambda>i. concat (map (\<lambda>j. map (\<lambda>k. e i j k) [0..<d2]) [0..<d1])) [0..<d0])\<rparr>"

definition tabulate4 ::
  "nat \<Rightarrow> nat \<Rightarrow> nat \<Rightarrow> nat \<Rightarrow> (nat \<Rightarrow> nat \<Rightarrow> nat \<Rightarrow> nat \<Rightarrow> fl) \<Rightarrow> tensor" where
  "tabulate4 d0 d1 d2 d3 e =
     \<lparr>shape = [d0, d1, d2, d3],
      elems = concat (map (\<lambda>n. concat (map (\<lambda>c. concat (map (\<lambda>i. map (\<lambda>j. e n c i j) [0..<d3])
                 [0..<d2])) [0..<d1])) [0..<d0])\<rparr>"

text \<open>
  \<^verbatim>\<open>nn.Conv2d(in_channels, out_channels, kernel_size=1, stride=1, padding=0,
  dilation=1, bias=True)\<close>: a weight for every pair of an output and an input channel,
  and a bias for every output channel. \<^verbatim>\<open>conv1x1\<close> builds one; its randomly
  initialised weight and bias are arguments here.
\<close>

record conv2d =
  in_channels :: nat
  out_channels :: nat
  weight :: "nat \<Rightarrow> nat \<Rightarrow> fl"
  bias :: "nat \<Rightarrow> fl"

definition conv1x1 :: "nat \<Rightarrow> nat \<Rightarrow> (nat \<Rightarrow> nat \<Rightarrow> fl) \<Rightarrow> (nat \<Rightarrow> fl) \<Rightarrow> conv2d" where
  "conv1x1 cin cout w0 b0 = \<lparr>in_channels = cin, out_channels = cout, weight = w0, bias = b0\<rparr>"

text \<open>
  Applying the layer to a batch of feature maps. torch raises unless the input has the
  layer's number of channels, the weight has at least one output channel, and the
  spatial size is at least the kernel's (1 by 1).
\<close>

definition conv2d_forward :: "conv2d \<Rightarrow> tensor \<Rightarrow> py_error + tensor" where
  "conv2d_forward L x =
     (if length (shape x) \<noteq> 4 \<or> shape x ! 1 \<noteq> in_channels L \<or> out_channels L = 0
         \<or> shape x ! 2 = 0 \<or> shape x ! 3 = 0
      then Inl RuntimeError
      else Inr (tabulate4 (shape x ! 0) (out_channels L) (shape x ! 2) (shape x ! 3)
             (\<lambda>n oc i j. fl_add (bias L oc)
                (fl_sum (map (\<lambda>ic. fl_mul (weight L oc ic) (at4 x n ic i j)) [0..<in_channels L])))))"

text \<open>
  \<^verbatim>\<open>t.view(b, -1, n)\<close>: the middle size is inferred. torch raises when the elements
  cannot be divided among \<open>b * n\<close>, and also when \<open>b * n = 0\<close> (for a tensor with no
  element every middle size would do).
\<close>

definition view_infer :: "nat \<Rightarrow> nat \<Rightarrow> tensor \<Rightarrow> py_error + tensor" where
  "view_infer b n t =
     (if b * n = 0 \<or> length (elems t) mod (b * n) \<noteq> 0 then Inl RuntimeError
      else Inr \<lparr>shape = [b, length (elems t) div (b * n), n], elems = elems t\<rparr>)"

text \<open>\<^verbatim>\<open>t.view(d0, d1, d2, d3)\<close>\<close>

definition view4 :: "nat \<Rightarrow> nat \<Rightarrow> nat \<Rightarrow> nat \<Rightarrow> tensor \<Rightarrow> py_error + tensor" where
  "view4 d0 d1 d2 d3 t =
     (if length (elems t) = d0 * d1 * d2 * d3
      then Inr \<lparr>shape = [d0, d1, d2, d3], elems = elems t\<rparr>
      else Inl RuntimeError)"

text \<open>\<^verbatim>\<open>t.permute(0, 2, 1)\<close> of a tensor with three dimensions.\<close>

definition permute_021 :: "tensor \<Rightarrow> tensor" where
  "permute_021 t = tabulate3 (shape t ! 0) (shape t ! 2) (shape t ! 1) (\<lambda>i j k. at3 t i k j)"

text \<open>\<^verbatim>\<open>torch.bmm(a, b)\<close>: a batch of matrix products.\<close>

definition bmm :: "tensor \<Rightarrow> tensor \<Rightarrow> py_error + tensor" where
  "bmm a b =
     (if length (shape a) = 3 \<and> length (shape b) = 3 \<and> shape a ! 0 = shape b ! 0
         \<and> shape a ! 2 = shape b ! 1
      then Inr (tabulate3 (shape a ! 0) (shape a ! 1) (shape b ! 2)
             (\<lambda>i r c. fl_sum (map (\<lambda>m. fl_mul (at3 a i r m) (at3 b i m c)) [0..<shape a ! 2])))
      else Inl RuntimeError)"

text \<open>\<^verbatim>\<open>nn.Softmax(dim=-1)\<close> on a tensor with three dimensions.\<close>

definition softmax_last :: "tensor \<Rightarrow> tensor" where
  "softmax_last t =
     tabulate3 (shape t ! 0) (shape t ! 1) (shape t ! 2)
       (\<lambda>i j k. fl_div (fl_exp (at3 t i j k))
                  (fl_sum (map (\<lambda>m. fl_exp (at3 t i j m)) [0..<shape t ! 2])))"

text \<open>
  \<^verbatim>\<open>self.gamma*out + x\<close>. \<^verbatim>\<open>self.gamma\<close> has one element and is broadcast over
  \<open>out\<close>. Where this line is reached \<open>out\<close> and \<open>x\<close> have one shape
  (\<^verbatim>\<open>self.f\<close> has raised on an \<open>x\<close> with another number of channels), so
  broadcasting between the two is not modelled and is an error here.
\<close>

definition gate_add :: "fl \<Rightarrow> tensor \<Rightarrow> tensor \<Rightarrow> py_error + tensor" where
  "gate_add gm out x =
     (if shape out = shape x
      then Inr \<lparr>shape = shape x, elems = map2 (\<lambda>a v. fl_add (fl_mul gm a) v) (elems out) (elems x)\<rparr>
      else Inl RuntimeError)"

text \<open>
  The module: the four layers \<^verbatim>\<open>self.f\<close>, \<^verbatim>\<open>self.g\<close>, \<^verbatim>\<open>self.h\<close>,
  \<^verbatim>\<open>self.v\<close> and the one element of \<^verbatim>\<open>self.gamma\<close>.
\<close>

record self_attn =
  conv_f :: conv2d
  conv_g :: conv2d
  conv_h :: conv2d
  conv_v :: conv2d
  gamma :: fl

text \<open>
  \<^verbatim>\<open>SelfAttn.__init__(channels)\<close>; \<^verbatim>\<open>self.gamma = nn.Parameter(torch.zeros(1))\<close>.
\<close>

definition SelfAttn_init ::
  "nat \<Rightarrow> (nat \<Rightarrow> nat \<Rightarrow> fl) \<Rightarrow> (nat \<Rightarrow> fl) \<Rightarrow> (nat \<Rightarrow> nat \<Rightarrow> fl) \<Rightarrow> (nat \<Rightarrow> fl)
     \<Rightarrow> (nat \<Rightarrow> nat \<Rightarrow> fl) \<Rightarrow> (nat \<Rightarrow> fl) \<Rightarrow> (nat \<Rightarrow> nat \<Rightarrow> fl) \<Rightarrow> (nat \<Rightarrow> fl) \<Rightarrow> self_attn" where
  "SelfAttn_init channels w_f b_f w_g b_g w_h b_h w_v b_v =
     (let k = channels div 8 in
      \<lparr>conv_f = conv1x1 channels k w_f b_f,
       conv_g = conv1x1 channels k w_g b_g,
       conv_h = conv1x1 channels (channels div 2) w_h b_h,
       conv_v = conv1x1 (channels div 2) channels w_v b_v,
       gamma = Fin 0\<rparr>)"

text \<open>
  \<^verbatim>\<open>SelfAttn.forward(x)\<close> up to its last assignment: the value of \<^verbatim>\<open>out\<close> after
  \<^verbatim>\<open>out = self.v(out.view(b, c//2, width, height))\<close>, the attention branch.
  \<^verbatim>\<open>b, c, width, height = x.size()\<close> raises unless \<open>x\<close> has four dimensions.
\<close>

definition SelfAttn_attention :: "self_attn \<Rightarrow> tensor \<Rightarrow> py_error + tensor" where
  "SelfAttn_attention m x =
     (if length (shape x) \<noteq> 4 then Inl ValueError
      else
        let b = shape x ! 0; c = shape x ! 1; width = shape x ! 2; height = shape x ! 3;
            N = width * height
        in
        and_then (conv2d_forward (conv_f m) x) (\<lambda>fx.
        and_then (view_infer b N fx) (\<lambda>fv.
        and_then (conv2d_forward (conv_g m) x) (\<lambda>gx.
        and_then (view_infer b N gx) (\<lambda>gv.
        and_then (conv2d_forward (conv_h m) x) (\<lambda>hx.
        and_then (view_infer b N hx) (\<lambda>hv.
        and_then (bmm (permute_021 fv) gv) (\<lambda>transposed.
        and_then (bmm hv (permute_021 (softmax_last transposed))) (\<lambda>out.
        and_then (view4 b (c div 2) width height out) (\<lambda>out4.
        conv2d_forward (conv_v m) out4))))))))))"

text \<open>
  \<^verbatim>\<open>SelfAttn.forward(x)\<close>: the attention branch, then \<^verbatim>\<open>out = self.gamma*out + x\<close>.
\<close>

definition SelfAttn_forward :: "self_attn \<Rightarrow> tensor \<Rightarrow> py_error + tensor" where
  "SelfAttn_forward m x =
     and_then (SelfAttn_attention m x) (\<lambda>vout. gate_add (gamma m) vout x)"

text \<open>A feature map of one batch, eight channels and two pixels, and a module for it.\<close>

definition example_features :: tensor where
  "example_features = \<lparr>shape = [1, 8, 1, 2], elems = map (\<lambda>n. Fin (real n)) [0..<16]\<rparr>"

definition example_attn :: self_attn where
  "example_attn =
     SelfAttn_init 8 (\<lambda>oc ic. Fin 1) (\<lambda>oc. Fin 0) (\<lambda>oc ic. Fin (1/2)) (\<lambda>oc. Fin 1)
       (\<lambda>oc ic. Fin 1) (\<lambda>oc. Fin 0) (\<lambda>oc ic. Fin (1/4)) (\<lambda>oc. Fin 1)"

text \<open>
  Two feature maps of one batch, eight channels and one pixel: one of finite numbers,
  and one whose first element is NaN.
\<close>

definition pixel_features :: tensor where
  "pixel_features =
     \<lparr>shape = [1, 8, 1, 1],
      elems = [Fin 0, Fin 1, Fin 2, Fin 3, Fin 4, Fin 5, Fin 6, Fin 7]\<rparr>"

definition nan_features :: tensor where
  "nan_features =
     \<lparr>shape = [1, 8, 1, 1],
      elems = [NaN, Fin 1, Fin 2, Fin 3, Fin 4, Fin 5, Fin 6, Fin 7]\<rparr>"

subsection \<open>Auxiliary notions and sample values\<close>

text \<open>The lengths of the eight histories, in the order in which the logging reads them.\<close>

definition history_lengths :: "sagan \<Rightarrow> nat list" where
  "history_lengths s =
     [length (ave_d_losses s), length (ave_d_losses_real s), length (ave_d_losses_fake s),
      length (ave_g_losses s), length (ave_g_gamma1 s), length (ave_g_gamma2 s),
      length (ave_d_gamma1 s), length (ave_d_gamma2 s)]"

text \<open>A backend whose Adam steps change nothing, a configuration and a fresh object.\<close>

definition example_backend :: backend where
  "example_backend =
     \<lparr>adam_D = (\<lambda>g n opt. (n, opt)), adam_G = (\<lambda>g n opt. (n, opt)),
      items = (\<lambda>e i. \<lparr>m_d_loss = 2, m_d_loss_real = 1, m_d_loss_fake = 1, m_d_gamma1 = 0,
                       m_d_gamma2 = 0, m_g_loss = 1, m_g_gamma1 = 0, m_g_gamma2 = 0\<rparr>)\<rparr>"

definition example_config :: config where
  "example_config =
     \<lparr>total_steps = 4, d_iters = 2, g_iters = 1, inst_noise_sigma = 1/2,
      inst_noise_sigma_iters = 4, log_step = 1, save_epoch = 1, model_path = ''models'',
      pretrained_model = None\<rparr>"

definition example_sagan :: sagan where
  "example_sagan =
     \<lparr>net_G = [], net_D = [],
      g_optimizer = \<lparr>param_groups = [], moments = []\<rparr>,
      d_optimizer = \<lparr>param_groups = [], moments = []\<rparr>,
      g_grad = [], d_grad = [],
      ave_d_losses = [], ave_d_losses_real = [], ave_d_losses_fake = [],
      ave_d_gamma1 = [], ave_d_gamma2 = [],
      ave_g_losses = [], ave_g_gamma1 = [], ave_g_gamma2 = [],
      disk = Map.empty, noise_log = [], d_step_log = [], g_step_log = [], epoch_log = []\<rparr>"






section \<open>Properties\<close>

lemma sum_list_nonneg_all: "(\<And>v. v \<in> set xs \<Longrightarrow> (0::real) \<le> v) \<Longrightarrow> 0 \<le> sum_list xs"
  by (induction xs) auto

lemma sum_list_zero_all: "(\<And>v. v \<in> set xs \<Longrightarrow> v = (0::real)) \<Longrightarrow> sum_list xs = 0"
  by (induction xs) auto

lemma sigma_curr_pos:
  "0 < sigma_iters \<Longrightarrow> inst_noise_sigma_curr sigma sigma_iters s =
     Inr (if int s > sigma_iters then 0 else (1 - real s / real_of_int sigma_iters) * sigma)"
  by (simp add: inst_noise_sigma_curr_def)

lemma sigma_curr_mono:
  assumes "0 < sigma_iters" and "0 \<le> sigma" and "s \<le> t"
  shows "(if int t > sigma_iters then 0 else (1 - real t / real_of_int sigma_iters) * sigma)
       \<le> (if int s > sigma_iters then 0 else (1 - real s / real_of_int sigma_iters) * sigma)"
proof -
  have pos: "0 < real_of_int sigma_iters" using assms(1) by simp
  have st: "real s / real_of_int sigma_iters \<le> real t / real_of_int sigma_iters"
    using assms(3) pos by (simp add: divide_right_mono)
  show ?thesis
  proof (cases "int t > sigma_iters")
    case True
    show ?thesis
    proof (cases "int s > sigma_iters")
      case True
      with \<open>int t > sigma_iters\<close> show ?thesis by simp
    next
      case False
      then have "real s \<le> real_of_int sigma_iters" by linarith
      then have "real s / real_of_int sigma_iters \<le> 1" using pos by simp
      then have "0 \<le> (1 - real s / real_of_int sigma_iters) * sigma"
        using assms(2) by simp
      with True False show ?thesis by simp
    qed
  next
    case False
    then have "\<not> int s > sigma_iters" using assms(3) by linarith
    moreover have "(1 - real t / real_of_int sigma_iters) * sigma
          \<le> (1 - real s / real_of_int sigma_iters) * sigma"
      using st assms(2) by (intro mult_right_mono) auto
    ultimately show ?thesis using False by simp
  qed
qed

subsection \<open>Sequencing and loops\<close>

lemma and_then_Inr_iff:
  "and_then r f = Inr y \<longleftrightarrow> (\<exists>x. r = Inr x \<and> f x = Inr y)"
  by (cases r) (simp_all add: and_then_def)

lemma and_then_Inr [simp]: "and_then (Inr x) f = f x"
  by (simp add: and_then_def)

lemma and_then_Inl [simp]: "and_then (Inl e) f = Inl e"
  by (simp add: and_then_def)

lemma for_loop_append:
  "for_loop (xs @ ys) body s = and_then (for_loop xs body s) (for_loop ys body)"
proof (induction xs arbitrary: s)
  case Nil
  show ?case by simp
next
  case (Cons x xs)
  show ?case
  proof (cases "body x s")
    case (Inl e)
    then show ?thesis by simp
  next
    case (Inr s1)
    then show ?thesis using Cons.IH [of s1] by simp
  qed
qed

lemma for_loop_invariant:
  assumes "for_loop xs body s = Inr s'" and "P s"
    and "\<And>i t t'. i \<in> set xs \<Longrightarrow> P t \<Longrightarrow> body i t = Inr t' \<Longrightarrow> P t'"
  shows "P s'"
  using assms
proof (induction xs arbitrary: s)
  case Nil
  then show ?case by simp
next
  case (Cons x xs)
  from Cons.prems(1) obtain s1 where s1: "body x s = Inr s1" and rest: "for_loop xs body s1 = Inr s'"
    by (auto simp: and_then_Inr_iff)
  have "P s1" using Cons.prems(3) [of x s s1] Cons.prems(2) s1 by simp
  moreover have "P t'" if "i \<in> set xs" "P t" "body i t = Inr t'" for i t t'
    using Cons.prems(3) [of i t t'] that by simp
  ultimately show ?case using Cons.IH [OF rest] by blast
qed

lemma for_loop_total:
  assumes "\<And>i t. i \<in> set xs \<Longrightarrow> \<exists>t'. body i t = Inr t'"
  shows "\<exists>s'. for_loop xs body s = Inr s'"
  using assms
proof (induction xs arbitrary: s)
  case Nil
  show ?case by simp
next
  case (Cons x xs)
  obtain s1 where "body x s = Inr s1" using Cons.prems [of x s] by auto
  then show ?case using Cons.IH [of s1] Cons.prems by simp
qed

lemma d_iteration_ok:
  "0 \<le> std \<Longrightarrow> d_iteration epoch step std i s =
     Inr (s\<lparr>d_grad := [Backprop epoch step i RealPass, Backprop epoch step i FakePass],
            g_grad := [Backprop epoch step i FakePass]\<rparr>)"
  by (simp add: d_iteration_def torch_normal_def reset_grad_def Let_def)

lemma d_loop_grads:
  assumes "0 \<le> std"
  shows "for_loop xs (d_iteration epoch step std) s =
     Inr (if xs = [] then s
          else s\<lparr>d_grad := [Backprop epoch step (last xs) RealPass,
                            Backprop epoch step (last xs) FakePass],
                 g_grad := [Backprop epoch step (last xs) FakePass]\<rparr>)"
proof (induction xs arbitrary: s)
  case Nil
  show ?case by simp
next
  case (Cons x xs)
  let ?s1 = "s\<lparr>d_grad := [Backprop epoch step x RealPass, Backprop epoch step x FakePass],
               g_grad := [Backprop epoch step x FakePass]\<rparr>"
  have "for_loop (x # xs) (d_iteration epoch step std) s
        = for_loop xs (d_iteration epoch step std) ?s1"
    unfolding for_loop.simps d_iteration_ok [OF assms] and_then_Inr ..
  then show ?case
    unfolding Cons.IH by simp
qed

lemma d_loop_last:
  assumes "0 \<le> std"
  shows "for_loop [0..<Suc n] (d_iteration epoch step std) s =
     Inr (s\<lparr>d_grad := [Backprop epoch step n RealPass, Backprop epoch step n FakePass],
            g_grad := [Backprop epoch step n FakePass]\<rparr>)"
  using d_loop_grads [OF assms, of "[0..<Suc n]" epoch step s] by simp

lemma d_iteration_frame:
  "d_iteration epoch step std i s = Inr s' \<Longrightarrow>
     noise_log s' = noise_log s \<and> epoch_log s' = epoch_log s"
  by (auto simp: d_iteration_def torch_normal_def reset_grad_def Let_def split: if_splits)

lemma g_iteration_frame:
  "g_iteration epoch step std i s = Inr s' \<Longrightarrow>
     noise_log s' = noise_log s \<and> epoch_log s' = epoch_log s"
  by (auto simp: g_iteration_def torch_normal_def reset_grad_def Let_def split: if_splits)

lemma d_phase_frame:
  assumes "d_phase B cfg epoch step std s = Inr s'"
  shows "noise_log s' = noise_log s \<and> epoch_log s' = epoch_log s"
proof -
  from assms obtain s1 where
    loop: "for_loop [0..<nat (d_iters cfg)] (d_iteration epoch step std) s = Inr s1"
    and s': "s' = d_optimizer_step B s1"
    by (auto simp: d_phase_def and_then_Inr_iff)
  have "noise_log s1 = noise_log s \<and> epoch_log s1 = epoch_log s"
    by (rule for_loop_invariant [OF loop]) (auto dest: d_iteration_frame)
  then show ?thesis
    by (simp add: s' d_optimizer_step_def split: prod.split)
qed

lemma g_phase_frame:
  assumes "g_phase B cfg epoch step std s = Inr s'"
  shows "noise_log s' = noise_log s \<and> epoch_log s' = epoch_log s"
proof -
  from assms obtain s1 where
    loop: "for_loop [0..<nat (g_iters cfg)] (g_iteration epoch step std) s = Inr s1"
    and s': "s' = g_optimizer_step B s1"
    by (auto simp: g_phase_def and_then_Inr_iff)
  have "noise_log s1 = noise_log s \<and> epoch_log s1 = epoch_log s"
    by (rule for_loop_invariant [OF loop]) (auto dest: g_iteration_frame)
  then show ?thesis
    by (simp add: s' g_optimizer_step_def split: prod.split)
qed

lemma train_step_logs:
  assumes "train_step B cfg epoch step (s, logs) = Inr (s', logs')"
  shows "\<exists>std. inst_noise_sigma_curr (inst_noise_sigma cfg) (inst_noise_sigma_iters cfg) step = Inr std
           \<and> noise_log s' = noise_log s @ [(epoch, step, std)]
           \<and> epoch_log s' = epoch_log s"
proof -
  from assms obtain std s1 s2 where
    std: "inst_noise_sigma_curr (inst_noise_sigma cfg) (inst_noise_sigma_iters cfg) step = Inr std"
    and d: "d_phase B cfg epoch step std (s\<lparr>noise_log := noise_log s @ [(epoch, step, std)]\<rparr>) = Inr s1"
    and g: "g_phase B cfg epoch step std s1 = Inr s2"
    and s': "s' = s2"
    by (auto simp: train_step_def and_then_Inr_iff split: if_splits)
  from d_phase_frame [OF d] g_phase_frame [OF g] s' std show ?thesis by simp
qed

lemma step_loop_logs:
  assumes "for_loop xs (train_step B cfg epoch) st = Inr st'"
  shows "\<exists>new. noise_log (fst st') = noise_log (fst st) @ new
           \<and> map (\<lambda>(e, i, v). (e, i, Inr v)) new
               = map (\<lambda>i. (epoch, i, inst_noise_sigma_curr (inst_noise_sigma cfg)
                                        (inst_noise_sigma_iters cfg) i)) xs
           \<and> epoch_log (fst st') = epoch_log (fst st)"
  using assms
proof (induction xs arbitrary: st)
  case Nil
  then show ?case by simp
next
  case (Cons x xs)
  from Cons.prems obtain st1 where
    first: "train_step B cfg epoch x st = Inr st1"
    and rest: "for_loop xs (train_step B cfg epoch) st1 = Inr st'"
    by (auto simp: and_then_Inr_iff)
  from first have "train_step B cfg epoch x (fst st, snd st) = Inr (fst st1, snd st1)"
    by simp
  from train_step_logs [OF this] obtain std where
    std: "inst_noise_sigma_curr (inst_noise_sigma cfg) (inst_noise_sigma_iters cfg) x = Inr std"
    and n1: "noise_log (fst st1) = noise_log (fst st) @ [(epoch, x, std)]"
    and e1: "epoch_log (fst st1) = epoch_log (fst st)"
    by blast
  from Cons.IH [OF rest] obtain new where
    n2: "noise_log (fst st') = noise_log (fst st1) @ new"
    and m2: "map (\<lambda>(e, i, v). (e, i, Inr v)) new
               = map (\<lambda>i. (epoch, i, inst_noise_sigma_curr (inst_noise_sigma cfg)
                                        (inst_noise_sigma_iters cfg) i)) xs"
    and e2: "epoch_log (fst st') = epoch_log (fst st1)"
    by blast
  show ?case
    by (rule exI [of _ "(epoch, x, std) # new"]) (simp add: n1 n2 m2 e1 e2 std)
qed

lemma append_averages_frame:
  "append_averages logs s = Inr s' \<Longrightarrow>
     noise_log s' = noise_log s \<and> epoch_log s' = epoch_log s"
  by (auto simp: append_averages_def and_then_Inr_iff)

lemma save_model_frame:
  "save_model cfg epoch s = Inr s' \<Longrightarrow>
     noise_log s' = noise_log s \<and> epoch_log s' = epoch_log s"
  by (auto simp: save_model_def and_then_Inr_iff split: if_splits)

lemma train_epoch_logs:
  assumes "train_epoch B cfg n epoch s = Inr s'"
  shows "\<exists>new. noise_log s' = noise_log s @ new
           \<and> map (\<lambda>(e, i, v). (e, i, Inr v)) new
               = map (\<lambda>i. (epoch, i, inst_noise_sigma_curr (inst_noise_sigma cfg)
                                        (inst_noise_sigma_iters cfg) i)) [0..<n]
           \<and> epoch_log s' = epoch_log s @ [epoch]"
proof -
  from assms obtain st s1 s2 where
    loop: "for_loop [0..<n] (train_step B cfg epoch) (s, []) = Inr st"
    and ave: "append_averages (snd st) (fst st) = Inr s1"
    and sav: "save_model cfg epoch s1 = Inr s2"
    and s': "s' = s2\<lparr>epoch_log := epoch_log s2 @ [epoch]\<rparr>"
    by (auto simp: train_epoch_def and_then_Inr_iff)
  from step_loop_logs [OF loop] obtain new where
    "noise_log (fst st) = noise_log s @ new"
    "map (\<lambda>(e, i, v). (e, i, Inr v)) new
               = map (\<lambda>i. (epoch, i, inst_noise_sigma_curr (inst_noise_sigma cfg)
                                        (inst_noise_sigma_iters cfg) i)) [0..<n]"
    "epoch_log (fst st) = epoch_log s"
    by auto
  with append_averages_frame [OF ave] save_model_frame [OF sav] s'
  show ?thesis by auto
qed

lemma epoch_loop_logs:
  assumes "for_loop es (train_epoch B cfg n) s = Inr s'"
  shows "\<exists>new. noise_log s' = noise_log s @ new
           \<and> map (\<lambda>(e, i, v). (e, i, Inr v)) new
               = concat (map (\<lambda>e. map (\<lambda>i. (e, i, inst_noise_sigma_curr (inst_noise_sigma cfg)
                                        (inst_noise_sigma_iters cfg) i)) [0..<n]) es)
           \<and> epoch_log s' = epoch_log s @ es"
  using assms
proof (induction es arbitrary: s)
  case Nil
  then show ?case by simp
next
  case (Cons e es)
  from Cons.prems obtain s1 where
    first: "train_epoch B cfg n e s = Inr s1"
    and rest: "for_loop es (train_epoch B cfg n) s1 = Inr s'"
    by (auto simp: and_then_Inr_iff)
  from train_epoch_logs [OF first] obtain new1 where
    a1: "noise_log s1 = noise_log s @ new1"
    and a2: "map (\<lambda>(e, i, v). (e, i, Inr v)) new1
               = map (\<lambda>i. (e, i, inst_noise_sigma_curr (inst_noise_sigma cfg)
                                        (inst_noise_sigma_iters cfg) i)) [0..<n]"
    and a3: "epoch_log s1 = epoch_log s @ [e]"
    by blast
  from Cons.IH [OF rest] obtain new2 where
    b1: "noise_log s' = noise_log s1 @ new2"
    and b2: "map (\<lambda>(e, i, v). (e, i, Inr v)) new2
               = concat (map (\<lambda>e. map (\<lambda>i. (e, i, inst_noise_sigma_curr (inst_noise_sigma cfg)
                                        (inst_noise_sigma_iters cfg) i)) [0..<n]) es)"
    and b3: "epoch_log s' = epoch_log s1 @ es"
    by blast
  show ?case
    by (rule exI [of _ "new1 @ new2"]) (simp add: a1 a2 a3 b1 b2 b3)
qed


lemma g_iteration_ok:
  "0 \<le> std \<Longrightarrow> g_iteration epoch step std i s =
     Inr (s\<lparr>g_grad := [Backprop epoch step i GenPass],
            d_grad := [Backprop epoch step i GenPass]\<rparr>)"
  by (simp add: g_iteration_def torch_normal_def reset_grad_def Let_def)

lemma d_phase_total: "0 \<le> std \<Longrightarrow> \<exists>s'. d_phase B cfg epoch step std s = Inr s'"
  by (simp add: d_phase_def d_loop_grads)

lemma g_phase_total:
  assumes "0 \<le> std"
  shows "\<exists>s'. g_phase B cfg epoch step std s = Inr s'"
proof -
  have "\<exists>s1. for_loop [0..<nat (g_iters cfg)] (g_iteration epoch step std) s = Inr s1"
    by (rule for_loop_total) (simp add: g_iteration_ok [OF assms])
  then show ?thesis by (auto simp: g_phase_def)
qed

lemma sigma_curr_nonneg:
  assumes "0 < sigma_iters" and "0 \<le> sigma"
  shows "\<exists>std. inst_noise_sigma_curr sigma sigma_iters i = Inr std \<and> 0 \<le> std"
proof (cases "int i > sigma_iters")
  case True
  then show ?thesis by (simp add: inst_noise_sigma_curr_def)
next
  case False
  then have "real i \<le> real_of_int sigma_iters" by linarith
  then have "real i / real_of_int sigma_iters \<le> 1" using assms(1) by simp
  then have "0 \<le> (1 - real i / real_of_int sigma_iters) * sigma" using assms(2) by simp
  then show ?thesis using False assms(1) by (simp add: inst_noise_sigma_curr_def)
qed

lemma train_step_total:
  assumes "0 < inst_noise_sigma_iters cfg" and "0 \<le> inst_noise_sigma cfg"
    and "1 \<le> d_iters cfg" and "1 \<le> g_iters cfg" and "log_step cfg \<noteq> 0"
  shows "\<exists>st'. train_step B cfg epoch i st = Inr st'"
proof -
  obtain s logs where st: "st = (s, logs)" by (cases st)
  obtain std where std: "inst_noise_sigma_curr (inst_noise_sigma cfg) (inst_noise_sigma_iters cfg) i = Inr std"
    and nonneg: "0 \<le> std"
    using sigma_curr_nonneg [OF assms(1,2)] by blast
  obtain s1 where d: "d_phase B cfg epoch i std (s\<lparr>noise_log := noise_log s @ [(epoch, i, std)]\<rparr>) = Inr s1"
    using d_phase_total [OF nonneg] by blast
  obtain s2 where g: "g_phase B cfg epoch i std s1 = Inr s2"
    using g_phase_total [OF nonneg] by blast
  show ?thesis
    using assms(3,4,5) by (simp add: train_step_def st std d g py_divides_def)
qed

lemma d_iteration_hist: "d_iteration epoch step std i s = Inr s' \<Longrightarrow> history_lengths s' = history_lengths s"
  by (auto simp: d_iteration_def torch_normal_def reset_grad_def Let_def history_lengths_def split: if_splits)

lemma g_iteration_hist: "g_iteration epoch step std i s = Inr s' \<Longrightarrow> history_lengths s' = history_lengths s"
  by (auto simp: g_iteration_def torch_normal_def reset_grad_def Let_def history_lengths_def split: if_splits)

lemma d_phase_hist:
  assumes "d_phase B cfg epoch step std s = Inr s'"
  shows "history_lengths s' = history_lengths s"
proof -
  from assms obtain s1 where
    loop: "for_loop [0..<nat (d_iters cfg)] (d_iteration epoch step std) s = Inr s1"
    and s': "s' = d_optimizer_step B s1"
    by (auto simp: d_phase_def and_then_Inr_iff)
  have "history_lengths s1 = history_lengths s"
    by (rule for_loop_invariant [OF loop]) (auto dest: d_iteration_hist)
  then show ?thesis
    by (simp add: s' d_optimizer_step_def history_lengths_def split: prod.split)
qed

lemma g_phase_hist:
  assumes "g_phase B cfg epoch step std s = Inr s'"
  shows "history_lengths s' = history_lengths s"
proof -
  from assms obtain s1 where
    loop: "for_loop [0..<nat (g_iters cfg)] (g_iteration epoch step std) s = Inr s1"
    and s': "s' = g_optimizer_step B s1"
    by (auto simp: g_phase_def and_then_Inr_iff)
  have "history_lengths s1 = history_lengths s"
    by (rule for_loop_invariant [OF loop]) (auto dest: g_iteration_hist)
  then show ?thesis
    by (simp add: s' g_optimizer_step_def history_lengths_def split: prod.split)
qed

lemma train_step_hist:
  assumes "train_step B cfg epoch i st = Inr st'" and "log_step cfg \<noteq> 0"
  shows "history_lengths (fst st') = history_lengths (fst st)
       \<and> (snd st \<noteq> [] \<or> log_step cfg dvd int i + 1 \<longrightarrow> snd st' \<noteq> [])"
proof -
  obtain s logs where st: "st = (s, logs)" by (cases st)
  from assms(1) obtain std s1 s2 where
    d: "d_phase B cfg epoch i std (s\<lparr>noise_log := noise_log s @ [(epoch, i, std)]\<rparr>) = Inr s1"
    and g: "g_phase B cfg epoch i std s1 = Inr s2"
    and r: "(if log_step cfg dvd int i + 1
            then (if nat (d_iters cfg) = 0 \<or> nat (g_iters cfg) = 0 then Inl UnboundLocalError
                  else Inr (s2, logs @ [items B epoch i]))
            else Inr (s2, logs)) = Inr st'"
    using assms(2) by (auto simp: train_step_def st and_then_Inr_iff py_divides_def mod_eq_0_iff_dvd)
  have "history_lengths s2 = history_lengths s"
    using d_phase_hist [OF d] g_phase_hist [OF g] by (simp add: history_lengths_def)
  then show ?thesis using r by (auto simp: st split: if_splits)
qed

lemma step_loop_hist:
  assumes "for_loop xs (train_step B cfg epoch) st = Inr st'" and "log_step cfg \<noteq> 0"
  shows "history_lengths (fst st') = history_lengths (fst st)
       \<and> (snd st \<noteq> [] \<or> (\<exists>i\<in>set xs. log_step cfg dvd int i + 1) \<longrightarrow> snd st' \<noteq> [])"
  using assms(1)
proof (induction xs arbitrary: st)
  case Nil
  then show ?case by auto
next
  case (Cons x xs)
  from Cons.prems obtain st1 where
    first: "train_step B cfg epoch x st = Inr st1"
    and rest: "for_loop xs (train_step B cfg epoch) st1 = Inr st'"
    by (auto simp: and_then_Inr_iff)
  from train_step_hist [OF first assms(2)] Cons.IH [OF rest]
  show ?case by auto
qed


lemma append_averages_ok:
  assumes "logs \<noteq> []"
  shows "\<exists>s'. append_averages logs s = Inr s' \<and> history_lengths s' = map Suc (history_lengths s)"
  using assms by (simp add: append_averages_def py_mean_def history_lengths_def)

lemma py_index_ok: "0 \<le> i \<Longrightarrow> i < int (length xs) \<Longrightarrow> py_index xs i = Inr (xs ! nat i)"
  by (simp add: py_index_def)

lemma read_averages_ok:
  assumes "0 \<le> e" and "list_all (\<lambda>l. e < int l) (history_lengths s)"
  shows "read_averages s e = Inr ()"
  using assms by (simp add: read_averages_def history_lengths_def py_index_ok)

lemma save_model_ok:
  assumes "save_epoch cfg \<noteq> 0"
  shows "\<exists>s'. save_model cfg e s = Inr s' \<and> history_lengths s' = history_lengths s"
  using assms by (simp add: save_model_def py_divides_def history_lengths_def)

lemma train_epoch_total:
  assumes sig: "0 < inst_noise_sigma_iters cfg" "0 \<le> inst_noise_sigma cfg"
    and its: "1 \<le> d_iters cfg" "1 \<le> g_iters cfg"
    and lg: "0 < log_step cfg" "log_step cfg \<le> int n"
    and sv: "save_epoch cfg \<noteq> 0"
    and e: "0 \<le> e" "list_all (\<lambda>l. e \<le> int l) (history_lengths s)"
  shows "\<exists>s'. train_epoch B cfg n e s = Inr s'
            \<and> list_all (\<lambda>l. e + 1 \<le> int l) (history_lengths s')"
proof -
  have lg0: "log_step cfg \<noteq> 0" using lg(1) by simp
  obtain st where loop: "for_loop [0..<n] (train_step B cfg e) (s, []) = Inr st"
    using for_loop_total [of "[0..<n]" "train_step B cfg e" "(s, [])"]
      train_step_total [OF sig its lg0] by blast
  have hit: "\<exists>i\<in>set [0..<n]. log_step cfg dvd int i + 1"
  proof
    show "nat (log_step cfg - 1) \<in> set [0..<n]" using lg by auto
    show "log_step cfg dvd int (nat (log_step cfg - 1)) + 1" using lg(1) by simp
  qed
  from step_loop_hist [OF loop lg0] hit
  have h1: "history_lengths (fst st) = history_lengths s" and ne: "snd st \<noteq> []"
    by auto
  obtain s1 where ave: "append_averages (snd st) (fst st) = Inr s1"
    and h2: "history_lengths s1 = map Suc (history_lengths s)"
    using append_averages_ok [OF ne, of "fst st"] h1 by auto
  have big: "list_all (\<lambda>l. e < int l) (history_lengths s1)"
    using e(2) by (simp add: h2 list_all_iff) force
  have rd: "read_averages s1 e = Inr ()"
    by (rule read_averages_ok [OF e(1) big])
  obtain s2 where sav: "save_model cfg e s1 = Inr s2"
    and h3: "history_lengths s2 = history_lengths s1"
    using save_model_ok [OF sv] by blast
  have "train_epoch B cfg n e s = Inr (s2\<lparr>epoch_log := epoch_log s2 @ [e]\<rparr>)"
    by (simp add: train_epoch_def loop ave rd sav)
  moreover have "list_all (\<lambda>l. e + 1 \<le> int l) (history_lengths (s2\<lparr>epoch_log := epoch_log s2 @ [e]\<rparr>))"
  proof -
    have "history_lengths (s2\<lparr>epoch_log := epoch_log s2 @ [e]\<rparr>) = history_lengths s1"
      using h3 by (simp add: history_lengths_def)
    then show ?thesis using big by (simp add: list_all_iff) force
  qed
  ultimately show ?thesis by blast
qed

lemma for_loop_upto_total:
  assumes "\<And>e t. a \<le> e \<Longrightarrow> e \<le> b \<Longrightarrow> I e t \<Longrightarrow> \<exists>t'. body e t = Inr t' \<and> I (e + 1) t'"
    and "I a s"
  shows "\<exists>s'. for_loop [a..b] body s = Inr s'"
  using assms
proof (induction "nat (b + 1 - a)" arbitrary: a s)
  case 0
  then have "[a..b] = []" by simp
  then show ?case by simp
next
  case (Suc k)
  then have le: "a \<le> b" by linarith
  then have unfold: "[a..b] = a # [a + 1..b]" by (simp add: upto_rec1)
  obtain s1 where s1: "body a s = Inr s1" and inv: "I (a + 1) s1"
    using Suc.prems(1) [of a s] le Suc.prems(2) by auto
  have k: "k = nat (b + 1 - (a + 1))" using Suc.hyps(2) by linarith
  have "\<exists>s'. for_loop [a + 1..b] body s1 = Inr s'"
  proof (rule Suc.hyps(1) [OF k _ inv])
    fix e t
    assume "a + 1 \<le> e" "e \<le> b" "I e t"
    then show "\<exists>t'. body e t = Inr t' \<and> I (e + 1) t'"
      using Suc.prems(1) [of e t] by simp
  qed
  then show ?case by (simp add: unfold s1)
qed

lemma train_total:
  assumes n: "0 < n"
    and sig: "0 < inst_noise_sigma_iters cfg" "0 \<le> inst_noise_sigma cfg"
    and its: "1 \<le> d_iters cfg" "1 \<le> g_iters cfg"
    and lg: "0 < log_step cfg" "log_step cfg \<le> int n"
    and sv: "save_epoch cfg \<noteq> 0"
    and st: "0 \<le> start_epoch cfg" "list_all (\<lambda>l. start_epoch cfg \<le> int l) (history_lengths s)"
  shows "\<exists>epochs s'. py_int_truediv (total_steps cfg) n = Inr epochs
            \<and> train B cfg n s = Inr s'
            \<and> epoch_log s' = epoch_log s @ py_range (start_epoch cfg) epochs"
proof -
  obtain epochs where ep: "py_int_truediv (total_steps cfg) n = Inr epochs"
    using n by (cases "0 \<le> total_steps cfg") (simp_all add: py_int_truediv_def)
  have "\<exists>s'. for_loop [start_epoch cfg..epochs - 1] (train_epoch B cfg n) s = Inr s'"
  proof (rule for_loop_upto_total
      [where I = "\<lambda>e t. list_all (\<lambda>l. e \<le> int l) (history_lengths t)"])
    show "list_all (\<lambda>l. start_epoch cfg \<le> int l) (history_lengths s)" by (rule st(2))
  next
    fix e t
    assume "start_epoch cfg \<le> e" "e \<le> epochs - 1"
      and "list_all (\<lambda>l. e \<le> int l) (history_lengths t)"
    then show "\<exists>t'. train_epoch B cfg n e t = Inr t'
                 \<and> list_all (\<lambda>l. e + 1 \<le> int l) (history_lengths t')"
      using train_epoch_total [OF sig its lg sv, of e t B] st(1) by simp
  qed
  then obtain s' where run: "for_loop (py_range (start_epoch cfg) epochs) (train_epoch B cfg n) s = Inr s'"
    by (auto simp: py_range_def)
  have "train B cfg n s = Inr s'" by (simp add: train_def ep run)
  moreover have "epoch_log s' = epoch_log s @ py_range (start_epoch cfg) epochs"
    using epoch_loop_logs [OF run] by blast
  ultimately show ?thesis using ep by blast
qed

lemma train_logs:
  assumes "train B cfg n s = Inr s'"
  shows "\<exists>epochs new. py_int_truediv (total_steps cfg) n = Inr epochs
           \<and> noise_log s' = noise_log s @ new
           \<and> map (\<lambda>(e, i, v). (e, i, Inr v)) new
               = concat (map (\<lambda>e. map (\<lambda>i. (e, i, inst_noise_sigma_curr (inst_noise_sigma cfg)
                                        (inst_noise_sigma_iters cfg) i)) [0..<n])
                           (py_range (start_epoch cfg) epochs))
           \<and> epoch_log s' = epoch_log s @ py_range (start_epoch cfg) epochs"
proof -
  from assms obtain epochs where
    ep: "py_int_truediv (total_steps cfg) n = Inr epochs"
    and run: "for_loop (py_range (start_epoch cfg) epochs) (train_epoch B cfg n) s = Inr s'"
    by (auto simp: train_def and_then_Inr_iff)
  from epoch_loop_logs [OF run] ep show ?thesis by blast
qed

lemma py_range_length: "length (py_range a b) = nat (b - a)"
  by (simp add: py_range_def)

lemma py_range_nth: "k < nat (b - a) \<Longrightarrow> py_range a b ! k = a + int k"
  by (simp add: py_range_def)

lemma concat_map_nth:
  assumes "\<And>e. length (f e) = n" and "k < length es" and "i < n"
  shows "concat (map f es) ! (k * n + i) = f (es ! k) ! i"
  using assms(2)
proof (induction es arbitrary: k)
  case Nil
  then show ?case by simp
next
  case (Cons e es)
  show ?case
  proof (cases k)
    case 0
    then show ?thesis using assms(1) [of e] assms(3) by (simp add: nth_append)
  next
    case (Suc j)
    then have "j < length es" using Cons.prems by simp
    from Cons.IH [OF this] show ?thesis
      using assms(1) [of e] by (simp add: Suc nth_append)
  qed
qed

lemma concat_map_length:
  assumes "\<And>e. length (f e) = n"
  shows "length (concat (map f es)) = length es * n"
  by (induction es) (simp_all add: assms)

subsection \<open>Loading a state dictionary\<close>



subsection \<open>Shapes in the self-attention layer\<close>

lemma tabulate3_shape [simp]: "shape (tabulate3 d0 d1 d2 e) = [d0, d1, d2]"
  by (simp add: tabulate3_def)

lemma tabulate4_shape [simp]: "shape (tabulate4 d0 d1 d2 d3 e) = [d0, d1, d2, d3]"
  by (simp add: tabulate4_def)

lemma tabulate3_length [simp]: "length (elems (tabulate3 d0 d1 d2 e)) = d0 * d1 * d2"
proof -
  have inner: "length (concat (map (\<lambda>j. map (\<lambda>k. e i j k) [0..<d2]) [0..<d1])) = d1 * d2" for i
    using concat_map_length [of "\<lambda>j. map (\<lambda>k. e i j k) [0..<d2]" d2 "[0..<d1]"] by simp
  have "length (concat (map (\<lambda>i. concat (map (\<lambda>j. map (\<lambda>k. e i j k) [0..<d2]) [0..<d1])) [0..<d0]))
        = d0 * (d1 * d2)"
    using concat_map_length
      [of "\<lambda>i. concat (map (\<lambda>j. map (\<lambda>k. e i j k) [0..<d2]) [0..<d1])" "d1 * d2" "[0..<d0]"]
      inner by simp
  then show ?thesis by (simp add: tabulate3_def)
qed

lemma tabulate4_length [simp]: "length (elems (tabulate4 d0 d1 d2 d3 e)) = d0 * d1 * d2 * d3"
proof -
  have l1: "length (concat (map (\<lambda>i. map (\<lambda>j. e n c i j) [0..<d3]) [0..<d2])) = d2 * d3" for n c
    using concat_map_length [of "\<lambda>i. map (\<lambda>j. e n c i j) [0..<d3]" d3 "[0..<d2]"] by simp
  have l2: "length (concat (map (\<lambda>c. concat (map (\<lambda>i. map (\<lambda>j. e n c i j) [0..<d3]) [0..<d2]))
                 [0..<d1])) = d1 * (d2 * d3)" for n
    using concat_map_length
      [of "\<lambda>c. concat (map (\<lambda>i. map (\<lambda>j. e n c i j) [0..<d3]) [0..<d2])" "d2 * d3" "[0..<d1]"]
      l1 by simp
  have "length (concat (map (\<lambda>n. concat (map (\<lambda>c. concat (map (\<lambda>i. map (\<lambda>j. e n c i j) [0..<d3])
                 [0..<d2])) [0..<d1])) [0..<d0])) = d0 * (d1 * (d2 * d3))"
    using concat_map_length
      [of "\<lambda>n. concat (map (\<lambda>c. concat (map (\<lambda>i. map (\<lambda>j. e n c i j) [0..<d3]) [0..<d2])) [0..<d1])"
          "d1 * (d2 * d3)" "[0..<d0]"]
      l2 by simp
  then show ?thesis by (simp add: tabulate4_def)
qed

lemma conv2d_forward_Inr:
  assumes "conv2d_forward L x = Inr y"
  shows "shape y = [shape x ! 0, out_channels L, shape x ! 2, shape x ! 3]
       \<and> length (elems y) = shape x ! 0 * out_channels L * shape x ! 2 * shape x ! 3
       \<and> length (shape x) = 4 \<and> shape x ! 1 = in_channels L"
  using assms by (auto simp: conv2d_forward_def split: if_splits)

lemma conv2d_forward_ok:
  assumes "shape x = [b, c, w, h]" and "c = in_channels L" and "0 < out_channels L"
    and "0 < w" and "0 < h"
  shows "\<exists>y. conv2d_forward L x = Inr y \<and> shape y = [b, out_channels L, w, h]
           \<and> length (elems y) = b * out_channels L * w * h"
  using assms by (simp add: conv2d_forward_def)

lemma view_infer_ok:
  assumes "length (elems t) = b * k * n" and "0 < b" and "0 < n"
  shows "\<exists>y. view_infer b n t = Inr y \<and> shape y = [b, k, n] \<and> length (elems y) = b * k * n"
proof -
  have eq: "b * k * n = k * (b * n)" by (simp add: mult_ac)
  have "length (elems t) mod (b * n) = 0" using assms(1) eq by simp
  moreover have "length (elems t) div (b * n) = k" using assms eq by simp
  ultimately show ?thesis using assms by (simp add: view_infer_def)
qed

lemma bmm_ok:
  assumes "shape a = [b, n, m]" and "shape c = [b, m, p]"
  shows "\<exists>y. bmm a c = Inr y \<and> shape y = [b, n, p] \<and> length (elems y) = b * n * p"
  using assms by (simp add: bmm_def)

lemma permute_021_shape:
  "shape t = [b, n, m] \<Longrightarrow> shape (permute_021 t) = [b, m, n]"
  by (simp add: permute_021_def)

lemma softmax_last_shape:
  "shape t = [b, n, m] \<Longrightarrow> shape (softmax_last t) = [b, n, m]"
  by (simp add: softmax_last_def)

lemma fl_sum_Nil [simp]: "fl_sum [] = Fin 0"
  by (simp add: fl_sum_def)

lemma fl_sum_Cons [simp]: "fl_sum (v # vs) = fl_add v (fl_sum vs)"
  by (simp add: fl_sum_def)

lemma gate_add_Inr:
  assumes "gate_add gm out x = Inr y"
  shows "shape y = shape x \<and> shape out = shape x
       \<and> elems y = map2 (\<lambda>a v. fl_add (fl_mul gm a) v) (elems out) (elems x)"
  using assms by (auto simp: gate_add_def split: if_splits)

lemma fl_add_zero_left: "fl_add (Fin 0) v = v"
  by (cases v) simp_all

lemma gate_zero_elem: "is_fin a \<Longrightarrow> fl_add (fl_mul (Fin 0) a) v = v"
  by (cases a) (simp_all add: fl_add_zero_left)

lemma map2_gate_zero:
  "length xs \<le> length outs \<Longrightarrow> list_all is_fin outs \<Longrightarrow>
     map2 (\<lambda>a v. fl_add (fl_mul (Fin 0) a) v) outs xs = xs"
proof (induction xs arbitrary: outs)
  case Nil
  show ?case by simp
next
  case (Cons x xs)
  then obtain a outs' where "outs = a # outs'" by (cases outs) auto
  with Cons show ?case by (simp add: gate_zero_elem)
qed

lemma SelfAttn_attention_Inr:
  assumes "SelfAttn_attention m x = Inr vout"
  shows "length (elems vout) = prod_list (shape vout)"
proof -
  from assms have four: "length (shape x) = 4"
    by (auto simp: SelfAttn_attention_def split: if_splits)
  from assms four obtain out4 where
    v: "conv2d_forward (conv_v m) out4 = Inr vout"
    by (auto simp: SelfAttn_attention_def Let_def and_then_Inr_iff)
  from conv2d_forward_Inr [OF v] have
    "shape vout = [shape out4 ! 0, out_channels (conv_v m), shape out4 ! 2, shape out4 ! 3]"
    "length (elems vout) = shape out4 ! 0 * out_channels (conv_v m) * shape out4 ! 2 * shape out4 ! 3"
    by simp_all
  then show ?thesis by simp
qed

lemma SelfAttn_forward_Inr:
  assumes "SelfAttn_forward m x = Inr y"
  shows "\<exists>vout. SelfAttn_attention m x = Inr vout \<and> shape y = shape x \<and> shape vout = shape x
           \<and> length (elems vout) = prod_list (shape x)
           \<and> elems y = map2 (\<lambda>a v. fl_add (fl_mul (gamma m) a) v) (elems vout) (elems x)"
proof -
  from assms obtain vout where
    at: "SelfAttn_attention m x = Inr vout"
    and g: "gate_add (gamma m) vout x = Inr y"
    by (auto simp: SelfAttn_forward_def and_then_Inr_iff)
  from gate_add_Inr [OF g] have sy: "shape y = shape x" and sv: "shape vout = shape x"
    and el: "elems y = map2 (\<lambda>a v. fl_add (fl_mul (gamma m) a) v) (elems vout) (elems x)"
    by simp_all
  have ln: "length (elems vout) = prod_list (shape x)"
    using SelfAttn_attention_Inr [OF at] sv by simp
  show ?thesis
  proof (intro exI conjI)
    show "SelfAttn_attention m x = Inr vout" by (rule at)
    show "shape y = shape x" by (rule sy)
    show "shape vout = shape x" by (rule sv)
    show "length (elems vout) = prod_list (shape x)" by (rule ln)
    show "elems y = map2 (\<lambda>a v. fl_add (fl_mul (gamma m) a) v) (elems vout) (elems x)"
      by (rule el)
  qed
qed

lemma SelfAttn_attention_ok:
  assumes x: "shape x = [b, c, w, h]"
    and m: "m = (SelfAttn_init c w_f b_f w_g b_g w_h b_h w_v b_v)\<lparr>gamma := gm\<rparr>"
    and c: "8 \<le> c" and pos: "0 < b" "0 < w" "0 < h"
  shows "\<exists>vout. SelfAttn_attention m x = Inr vout \<and> shape vout = [b, c, w, h]"
proof -
  let ?N = "w * h"
  have k: "0 < c div 8" and c2: "0 < c div 2" and c0: "0 < c" using c by simp_all
  have N: "0 < ?N" using pos by simp
  have layers: "in_channels (conv_f m) = c" "out_channels (conv_f m) = c div 8"
    "in_channels (conv_g m) = c" "out_channels (conv_g m) = c div 8"
    "in_channels (conv_h m) = c" "out_channels (conv_h m) = c div 2"
    "in_channels (conv_v m) = c div 2" "out_channels (conv_v m) = c"
    by (simp_all add: m SelfAttn_init_def conv1x1_def Let_def)
  obtain fx where fx: "conv2d_forward (conv_f m) x = Inr fx"
    and fxl: "length (elems fx) = b * (c div 8) * w * h"
    using conv2d_forward_ok [OF x, of "conv_f m"] layers k pos by auto
  obtain fv where fv: "view_infer b ?N fx = Inr fv" and fvs: "shape fv = [b, c div 8, ?N]"
    using view_infer_ok [of fx b "c div 8" ?N] fxl pos N by (auto simp: mult_ac)
  obtain gx where gx: "conv2d_forward (conv_g m) x = Inr gx"
    and gxl: "length (elems gx) = b * (c div 8) * w * h"
    using conv2d_forward_ok [OF x, of "conv_g m"] layers k pos by auto
  obtain gv where gv: "view_infer b ?N gx = Inr gv" and gvs: "shape gv = [b, c div 8, ?N]"
    using view_infer_ok [of gx b "c div 8" ?N] gxl pos N by (auto simp: mult_ac)
  obtain hx where hx: "conv2d_forward (conv_h m) x = Inr hx"
    and hxl: "length (elems hx) = b * (c div 2) * w * h"
    using conv2d_forward_ok [OF x, of "conv_h m"] layers c2 pos by auto
  obtain hv where hv: "view_infer b ?N hx = Inr hv" and hvs: "shape hv = [b, c div 2, ?N]"
    using view_infer_ok [of hx b "c div 2" ?N] hxl pos N by (auto simp: mult_ac)
  obtain tr where tr: "bmm (permute_021 fv) gv = Inr tr" and trs: "shape tr = [b, ?N, ?N]"
    using bmm_ok [OF permute_021_shape [OF fvs] gvs] by blast
  have betas: "shape (permute_021 (softmax_last tr)) = [b, ?N, ?N]"
    by (rule permute_021_shape [OF softmax_last_shape [OF trs]])
  obtain out where out: "bmm hv (permute_021 (softmax_last tr)) = Inr out"
    and outl: "length (elems out) = b * (c div 2) * ?N"
    using bmm_ok [OF hvs betas] by blast
  have out4: "view4 b (c div 2) w h out = Inr \<lparr>shape = [b, c div 2, w, h], elems = elems out\<rparr>"
    using outl by (simp add: view4_def mult_ac)
  let ?o4 = "\<lparr>shape = [b, c div 2, w, h], elems = elems out\<rparr>"
  have o4s: "shape ?o4 = [b, c div 2, w, h]" by simp
  have "\<exists>y. conv2d_forward (conv_v m) ?o4 = Inr y \<and> shape y = [b, out_channels (conv_v m), w, h]
           \<and> length (elems y) = b * out_channels (conv_v m) * w * h"
  proof (rule conv2d_forward_ok [OF o4s])
    show "c div 2 = in_channels (conv_v m)" by (simp only: layers)
    show "0 < out_channels (conv_v m)" using c0 by (simp only: layers)
    show "0 < w" by (rule pos)
    show "0 < h" by (rule pos)
  qed
  then obtain vout where vout: "conv2d_forward (conv_v m) ?o4 = Inr vout"
    and vs: "shape vout = [b, c, w, h]"
    unfolding layers by blast
  have four: "length (shape x) = 4" using x by simp
  have idx: "shape x ! 0 = b" "shape x ! 1 = c" "shape x ! 2 = w" "shape x ! 3 = h"
    using x by simp_all
  have "SelfAttn_attention m x = Inr vout"
    unfolding SelfAttn_attention_def Let_def idx
    by (simp only: four fx fv gx gv hx hv tr out out4 vout and_then_Inr simp_thms if_False)
  with vs show ?thesis by blast
qed

lemma SelfAttn_forward_ok:
  assumes x: "shape x = [b, c, w, h]"
    and m: "m = (SelfAttn_init c w_f b_f w_g b_g w_h b_h w_v b_v)\<lparr>gamma := gm\<rparr>"
    and c: "8 \<le> c" and pos: "0 < b" "0 < w" "0 < h"
  shows "\<exists>y. SelfAttn_forward m x = Inr y"
proof -
  from SelfAttn_attention_ok [OF assms] obtain vout where
    at: "SelfAttn_attention m x = Inr vout" and vs: "shape vout = [b, c, w, h]"
    by blast
  have "\<exists>y. gate_add (gamma m) vout x = Inr y"
    using vs x by (simp add: gate_add_def)
  then show ?thesis by (simp add: SelfAttn_forward_def at)
qed

lemma SelfAttn_init_gamma:
  "(SelfAttn_init c w_f b_f w_g b_g w_h b_h w_v b_v)\<lparr>gamma := Fin 0\<rparr>
     = SelfAttn_init c w_f b_f w_g b_g w_h b_h w_v b_v"
  by (simp add: SelfAttn_init_def Let_def)

lemma SelfAttn_forward_gate_closed:
  assumes wf: "wf_tensor x" and g0: "gamma m = Fin 0"
    and at: "SelfAttn_attention m x = Inr vout" and fin: "list_all is_fin (elems vout)"
    and run: "SelfAttn_forward m x = Inr y"
  shows "y = x"
proof -
  from SelfAttn_forward_Inr [OF run] at have
    sy: "shape y = shape x"
    and ln: "length (elems vout) = prod_list (shape x)"
    and el: "elems y = map2 (\<lambda>a v. fl_add (fl_mul (gamma m) a) v) (elems vout) (elems x)"
    by auto
  have "length (elems x) \<le> length (elems vout)"
    using wf ln by (simp add: wf_tensor_def)
  then have "elems y = elems x"
    unfolding el g0 using fin by (rule map2_gate_zero)
  with sy show ?thesis by simp
qed

subsection \<open>The attention branch on one pixel\<close>

lemma upt_0_1: "[0..<1] = [0]"
  by simp

lemma upt_0_4: "[0..<4] = [0, 1, 2, 3]"
  by code_simp

lemma upt_0_8: "[0..<8] = [0, 1, 2, 3, 4, 5, 6, 7]"
  by code_simp

lemmas tensor_eval =
  conv2d_forward_def view_infer_def view4_def permute_021_def bmm_def softmax_last_def
  tabulate3_def tabulate4_def at3_def at4_def upt_0_1 upt_0_4 upt_0_8

lemma example_attn_layers:
  "conv_f example_attn = \<lparr>in_channels = 8, out_channels = 1, weight = (\<lambda>oc ic. Fin 1), bias = (\<lambda>oc. Fin 0)\<rparr>"
  "conv_g example_attn = \<lparr>in_channels = 8, out_channels = 1, weight = (\<lambda>oc ic. Fin (1/2)), bias = (\<lambda>oc. Fin 1)\<rparr>"
  "conv_h example_attn = \<lparr>in_channels = 8, out_channels = 4, weight = (\<lambda>oc ic. Fin 1), bias = (\<lambda>oc. Fin 0)\<rparr>"
  "conv_v example_attn = \<lparr>in_channels = 4, out_channels = 8, weight = (\<lambda>oc ic. Fin (1/4)), bias = (\<lambda>oc. Fin 1)\<rparr>"
  by (simp_all add: example_attn_def SelfAttn_init_def conv1x1_def Let_def)

lemma attention_pixel_features:
  "SelfAttn_attention example_attn pixel_features
     = Inr \<lparr>shape = [1, 8, 1, 1],
            elems = [Fin 29, Fin 29, Fin 29, Fin 29, Fin 29, Fin 29, Fin 29, Fin 29]\<rparr>"
proof -
  let ?x = pixel_features
  have fx: "conv2d_forward (conv_f example_attn) ?x = Inr \<lparr>shape = [1, 1, 1, 1], elems = [Fin 28]\<rparr>"
    by (simp add: example_attn_layers pixel_features_def tensor_eval)
  have gx: "conv2d_forward (conv_g example_attn) ?x = Inr \<lparr>shape = [1, 1, 1, 1], elems = [Fin 15]\<rparr>"
    by (simp add: example_attn_layers pixel_features_def tensor_eval)
  have hx: "conv2d_forward (conv_h example_attn) ?x
              = Inr \<lparr>shape = [1, 4, 1, 1], elems = [Fin 28, Fin 28, Fin 28, Fin 28]\<rparr>"
    by (simp add: example_attn_layers pixel_features_def tensor_eval)
  have fv: "view_infer 1 1 \<lparr>shape = [1, 1, 1, 1], elems = [Fin 28]\<rparr>
              = Inr \<lparr>shape = [1, 1, 1], elems = [Fin 28]\<rparr>"
    by (simp add: tensor_eval)
  have gv: "view_infer 1 1 \<lparr>shape = [1, 1, 1, 1], elems = [Fin 15]\<rparr>
              = Inr \<lparr>shape = [1, 1, 1], elems = [Fin 15]\<rparr>"
    by (simp add: tensor_eval)
  have hv: "view_infer 1 1 \<lparr>shape = [1, 4, 1, 1], elems = [Fin 28, Fin 28, Fin 28, Fin 28]\<rparr>
              = Inr \<lparr>shape = [1, 4, 1], elems = [Fin 28, Fin 28, Fin 28, Fin 28]\<rparr>"
    by (simp add: tensor_eval)
  have tr: "bmm (permute_021 \<lparr>shape = [1, 1, 1], elems = [Fin 28]\<rparr>)
                \<lparr>shape = [1, 1, 1], elems = [Fin 15]\<rparr>
              = Inr \<lparr>shape = [1, 1, 1], elems = [Fin 420]\<rparr>"
    by (simp add: tensor_eval)
  have beta: "permute_021 (softmax_last \<lparr>shape = [1, 1, 1], elems = [Fin 420]\<rparr>)
              = \<lparr>shape = [1, 1, 1], elems = [Fin 1]\<rparr>"
    by (simp add: tensor_eval)
  have out: "bmm \<lparr>shape = [1, 4, 1], elems = [Fin 28, Fin 28, Fin 28, Fin 28]\<rparr>
                 \<lparr>shape = [1, 1, 1], elems = [Fin 1]\<rparr>
              = Inr \<lparr>shape = [1, 4, 1], elems = [Fin 28, Fin 28, Fin 28, Fin 28]\<rparr>"
    by (simp add: tensor_eval)
  have out4: "view4 1 (8 div 2) 1 1 \<lparr>shape = [1, 4, 1], elems = [Fin 28, Fin 28, Fin 28, Fin 28]\<rparr>
              = Inr \<lparr>shape = [1, 4, 1, 1], elems = [Fin 28, Fin 28, Fin 28, Fin 28]\<rparr>"
    by (simp add: tensor_eval)
  have vout: "conv2d_forward (conv_v example_attn)
                 \<lparr>shape = [1, 4, 1, 1], elems = [Fin 28, Fin 28, Fin 28, Fin 28]\<rparr>
              = Inr \<lparr>shape = [1, 8, 1, 1],
                     elems = [Fin 29, Fin 29, Fin 29, Fin 29, Fin 29, Fin 29, Fin 29, Fin 29]\<rparr>"
    by (simp add: example_attn_layers tensor_eval)
  have idx: "shape ?x ! 0 = 1" "shape ?x ! 1 = 8" "shape ?x ! 2 = 1" "shape ?x ! 3 = 1"
    "length (shape ?x) = 4"
    by (simp_all add: pixel_features_def)
  have n: "(1::nat) * 1 = 1" by simp
  show ?thesis
    unfolding SelfAttn_attention_def Let_def idx n
    by (simp only: fx fv gx gv hx hv tr beta out out4 vout and_then_Inr simp_thms if_False)
qed

lemma attention_nan_features:
  "SelfAttn_attention example_attn nan_features
     = Inr \<lparr>shape = [1, 8, 1, 1], elems = [NaN, NaN, NaN, NaN, NaN, NaN, NaN, NaN]\<rparr>"
proof -
  let ?x = nan_features
  have fx: "conv2d_forward (conv_f example_attn) ?x = Inr \<lparr>shape = [1, 1, 1, 1], elems = [NaN]\<rparr>"
    by (simp add: example_attn_layers nan_features_def tensor_eval)
  have gx: "conv2d_forward (conv_g example_attn) ?x = Inr \<lparr>shape = [1, 1, 1, 1], elems = [NaN]\<rparr>"
    by (simp add: example_attn_layers nan_features_def tensor_eval)
  have hx: "conv2d_forward (conv_h example_attn) ?x
              = Inr \<lparr>shape = [1, 4, 1, 1], elems = [NaN, NaN, NaN, NaN]\<rparr>"
    by (simp add: example_attn_layers nan_features_def tensor_eval)
  have fv: "view_infer 1 1 \<lparr>shape = [1, 1, 1, 1], elems = [NaN]\<rparr>
              = Inr \<lparr>shape = [1, 1, 1], elems = [NaN]\<rparr>"
    by (simp add: tensor_eval)
  have gv: "view_infer 1 1 \<lparr>shape = [1, 1, 1, 1], elems = [NaN]\<rparr>
              = Inr \<lparr>shape = [1, 1, 1], elems = [NaN]\<rparr>"
    by (rule fv)
  have hv: "view_infer 1 1 \<lparr>shape = [1, 4, 1, 1], elems = [NaN, NaN, NaN, NaN]\<rparr>
              = Inr \<lparr>shape = [1, 4, 1], elems = [NaN, NaN, NaN, NaN]\<rparr>"
    by (simp add: tensor_eval)
  have tr: "bmm (permute_021 \<lparr>shape = [1, 1, 1], elems = [NaN]\<rparr>)
                \<lparr>shape = [1, 1, 1], elems = [NaN]\<rparr>
              = Inr \<lparr>shape = [1, 1, 1], elems = [NaN]\<rparr>"
    by (simp add: tensor_eval)
  have beta: "permute_021 (softmax_last \<lparr>shape = [1, 1, 1], elems = [NaN]\<rparr>)
              = \<lparr>shape = [1, 1, 1], elems = [NaN]\<rparr>"
    by (simp add: tensor_eval)
  have out: "bmm \<lparr>shape = [1, 4, 1], elems = [NaN, NaN, NaN, NaN]\<rparr>
                 \<lparr>shape = [1, 1, 1], elems = [NaN]\<rparr>
              = Inr \<lparr>shape = [1, 4, 1], elems = [NaN, NaN, NaN, NaN]\<rparr>"
    by (simp add: tensor_eval)
  have out4: "view4 1 (8 div 2) 1 1 \<lparr>shape = [1, 4, 1], elems = [NaN, NaN, NaN, NaN]\<rparr>
              = Inr \<lparr>shape = [1, 4, 1, 1], elems = [NaN, NaN, NaN, NaN]\<rparr>"
    by (simp add: tensor_eval)
  have vout: "conv2d_forward (conv_v example_attn)
                 \<lparr>shape = [1, 4, 1, 1], elems = [NaN, NaN, NaN, NaN]\<rparr>
              = Inr \<lparr>shape = [1, 8, 1, 1], elems = [NaN, NaN, NaN, NaN, NaN, NaN, NaN, NaN]\<rparr>"
    by (simp add: example_attn_layers tensor_eval)
  have idx: "shape ?x ! 0 = 1" "shape ?x ! 1 = 8" "shape ?x ! 2 = 1" "shape ?x ! 3 = 1"
    "length (shape ?x) = 4"
    by (simp_all add: nan_features_def)
  have n: "(1::nat) * 1 = 1" by simp
  show ?thesis
    unfolding SelfAttn_attention_def Let_def idx n
    by (simp only: fx fv gx gv hx hv tr beta out out4 vout and_then_Inr simp_thms if_False)
qed

subsection \<open>Floats without NaN\<close>

lemma fl_add_nonneg: "fl_le (Fin 0) u \<Longrightarrow> fl_le (Fin 0) v \<Longrightarrow> fl_le (Fin 0) (fl_add u v)"
  by (cases u; cases v) simp_all

lemma fl_sum_nonneg: "(\<And>v. v \<in> set xs \<Longrightarrow> fl_le (Fin 0) v) \<Longrightarrow> fl_le (Fin 0) (fl_sum xs)"
  by (induction xs) (simp_all add: fl_add_nonneg)

lemma fl_sum_zero: "(\<And>v. v \<in> set xs \<Longrightarrow> v = Fin 0) \<Longrightarrow> fl_sum xs = Fin 0"
proof (induction xs)
  case Nil
  show ?case by simp
next
  case (Cons a xs)
  have "a = Fin 0" using Cons.prems [of a] by simp
  moreover have "fl_sum xs = Fin 0" using Cons by simp
  ultimately show ?case by simp
qed

lemma hinge_elem_nonneg: "v \<noteq> NaN \<Longrightarrow> fl_le (Fin 0) (fl_relu (fl_sub (Fin 1) v))"
  by (cases v) (simp_all add: fl_sub_def)

lemma hinge_elem_zero: "fl_le (Fin 1) v \<Longrightarrow> fl_relu (fl_sub (Fin 1) v) = Fin 0"
  by (cases v) (simp_all add: fl_sub_def)

lemma mean_t_nonneg:
  assumes "xs \<noteq> []" and "fl_le (Fin 0) (fl_sum xs)"
  shows "fl_le (Fin 0) (mean_t xs)"
proof -
  have "0 < real (length xs)" using assms(1) by simp
  then show ?thesis using assms(2) by (cases "fl_sum xs") (simp_all add: mean_t_def)
qed

lemma denorm_elem_range:
  "v \<noteq> NaN \<Longrightarrow> fl_le (Fin 0) (fl_clamp 0 1 (fl_div (fl_add v (Fin 1)) (Fin 2)))
        \<and> fl_le (fl_clamp 0 1 (fl_div (fl_add v (Fin 1)) (Fin 2))) (Fin 1)"
  by (cases v) simp_all

subsection \<open>Instance-noise annealing\<close>

text \<open>
  C1. For a positive decay horizon \<open>sigma_iters\<close> and a standard deviation
  \<open>sigma \<ge> 0\<close>, and for every step index: the annealed standard deviation is
  \<open>sigma\<close> at step 0, is non-increasing in the step index, decays linearly (by
  \<open>sigma / sigma_iters\<close> per step) up to the horizon, and is exactly 0 at the horizon
  and at every later step.
\<close>

theorem inst_noise_sigma_schedule:
  assumes "0 < sigma_iters" and "0 \<le> sigma"
  shows "inst_noise_sigma_curr sigma sigma_iters 0 = Inr sigma
       \<and> (s \<le> t \<longrightarrow> (\<exists>a b. inst_noise_sigma_curr sigma sigma_iters s = Inr a
              \<and> inst_noise_sigma_curr sigma sigma_iters t = Inr b \<and> b \<le> a))
       \<and> (int s \<le> sigma_iters \<longrightarrow> inst_noise_sigma_curr sigma sigma_iters s
              = Inr (sigma - real s * (sigma / real_of_int sigma_iters)))
       \<and> (sigma_iters \<le> int s \<longrightarrow> inst_noise_sigma_curr sigma sigma_iters s = Inr 0)"
proof (intro conjI impI)
  show "inst_noise_sigma_curr sigma sigma_iters 0 = Inr sigma"
    using assms(1) by (simp add: sigma_curr_pos)
next
  assume "s \<le> t"
  then show "\<exists>a b. inst_noise_sigma_curr sigma sigma_iters s = Inr a
              \<and> inst_noise_sigma_curr sigma sigma_iters t = Inr b \<and> b \<le> a"
    using sigma_curr_mono [OF assms] by (simp only: sigma_curr_pos [OF assms(1)]) blast
next
  assume "int s \<le> sigma_iters"
  then show "inst_noise_sigma_curr sigma sigma_iters s
              = Inr (sigma - real s * (sigma / real_of_int sigma_iters))"
    using assms(1) by (simp add: sigma_curr_pos algebra_simps)
next
  assume h: "sigma_iters \<le> int s"
  show "inst_noise_sigma_curr sigma sigma_iters s = Inr 0"
  proof (cases "sigma_iters = int s")
    case True
    then have "real_of_int sigma_iters = real s" by simp
    moreover have "real s \<noteq> 0" using True assms(1) by auto
    ultimately show ?thesis using assms(1) True by (simp add: sigma_curr_pos)
  next
    case False
    with h have "int s > sigma_iters" by simp
    then show ?thesis using assms(1) by (simp add: sigma_curr_pos)
  qed
qed

theorem inst_noise_sigma_schedule_witness:
  "(0::int) < 4 \<and> (0::real) \<le> 1/2
   \<and> inst_noise_sigma_curr (1/2) 4 0 = Inr (1/2)
   \<and> ((1::nat) \<le> 3 \<and> (\<exists>a b. inst_noise_sigma_curr (1/2) 4 1 = Inr a
              \<and> inst_noise_sigma_curr (1/2) 4 3 = Inr b \<and> b \<le> a))
   \<and> (int 1 \<le> 4 \<and> inst_noise_sigma_curr (1/2) 4 1 = Inr (3/8))
   \<and> inst_noise_sigma_curr (1/2) 4 3 = Inr (1/8)
   \<and> ((4::int) \<le> int 4 \<and> inst_noise_sigma_curr (1/2) 4 4 = Inr 0)
   \<and> ((4::int) \<le> int 9 \<and> inst_noise_sigma_curr (1/2) 4 9 = Inr 0)"
  using inst_noise_sigma_schedule [of 4 "1/2" 1 3]
        inst_noise_sigma_schedule [of 4 "1/2" 4 4]
        inst_noise_sigma_schedule [of 4 "1/2" 9 9]
  by (simp add: inst_noise_sigma_curr_def)

subsection \<open>Hinge losses\<close>

text \<open>
  C6, as stated for every input tensor, fails on the tensor with no element and on a
  tensor with a NaN element: the loss is NaN there, which is neither non-negative nor
  0 (although the tensor with no element has no element below 1).
\<close>

theorem loss_hinge_dis_real_nan:
  "loss_hinge_dis_real [] = NaN \<and> loss_hinge_dis_real [NaN] = NaN
   \<and> \<not> fl_le (Fin 0) (loss_hinge_dis_real [NaN])"
  by (simp add: loss_hinge_dis_real_def mean_t_def relu_t_def fl_sub_def)

text \<open>
  C6 (amended). \<open>loss_hinge_dis_real d\<close> is the mean of \<open>relu (1 - d)\<close> for every
  tensor; for every tensor with at least one element and no NaN element it is
  non-negative, and it is 0 whenever every element of \<open>d\<close> is \<open>\<ge> 1\<close>.
\<close>

theorem loss_hinge_dis_real_nonneg:
  "loss_hinge_dis_real d = mean_t (map (\<lambda>v. fl_relu (fl_sub (Fin 1) v)) d)
   \<and> (d \<noteq> [] \<and> NaN \<notin> set d \<longrightarrow>
        fl_le (Fin 0) (loss_hinge_dis_real d)
        \<and> ((\<forall>x\<in>set d. fl_le (Fin 1) x) \<longrightarrow> loss_hinge_dis_real d = Fin 0))"
proof (intro conjI impI)
  show eq: "loss_hinge_dis_real d = mean_t (map (\<lambda>v. fl_relu (fl_sub (Fin 1) v)) d)"
    by (simp add: loss_hinge_dis_real_def relu_t_def comp_def)
  let ?h = "map (\<lambda>v. fl_relu (fl_sub (Fin 1) v)) d"
  {
    assume h: "d \<noteq> [] \<and> NaN \<notin> set d"
    have "fl_le (Fin 0) (fl_sum ?h)"
    proof (rule fl_sum_nonneg)
      fix v assume "v \<in> set ?h"
      then obtain u where "u \<in> set d" and "v = fl_relu (fl_sub (Fin 1) u)" by auto
      then show "fl_le (Fin 0) v" using h hinge_elem_nonneg [of u] by auto
    qed
    moreover have "?h \<noteq> []" using h by simp
    ultimately show "fl_le (Fin 0) (loss_hinge_dis_real d)"
      unfolding eq by (intro mean_t_nonneg)
  next
    assume h: "d \<noteq> [] \<and> NaN \<notin> set d" and ge: "\<forall>x\<in>set d. fl_le (Fin 1) x"
    have "fl_sum ?h = Fin 0"
    proof (rule fl_sum_zero)
      fix v assume "v \<in> set ?h"
      then obtain u where "u \<in> set d" and "v = fl_relu (fl_sub (Fin 1) u)" by auto
      then show "v = Fin 0" using ge hinge_elem_zero [of u] by auto
    qed
    moreover have "real (length d) \<noteq> 0" using h by simp
    ultimately show "loss_hinge_dis_real d = Fin 0"
      unfolding eq by (simp add: mean_t_def)
  }
qed

theorem loss_hinge_dis_real_nonneg_witness:
  "[Fin 1, Fin (3/2), PInf] \<noteq> [] \<and> NaN \<notin> set [Fin 1, Fin (3/2), PInf]
   \<and> list_all (\<lambda>x. fl_le (Fin 1) x) [Fin 1, Fin (3/2), PInf]
   \<and> loss_hinge_dis_real [Fin 1, Fin (3/2), PInf] = Fin 0
   \<and> loss_hinge_dis_real [Fin 0, Fin (- 1), Fin 2] = Fin 1
   \<and> fl_le (Fin 0) (loss_hinge_dis_real [Fin 0, Fin (- 1), Fin 2])"
  using loss_hinge_dis_real_nonneg [of "[Fin 1, Fin (3/2), PInf]"]
        loss_hinge_dis_real_nonneg [of "[Fin 0, Fin (- 1), Fin 2]"]
  by (simp add: loss_hinge_dis_real_def mean_t_def relu_t_def fl_sub_def)

text \<open>
  C7. \<open>loss_hinge_gen d\<close> is the negated mean of \<open>d\<close> for every tensor, and it is
  strictly decreasing in that mean: when the mean of \<open>a\<close> is below the mean of \<open>b\<close>,
  the loss of \<open>a\<close> is above the loss of \<open>b\<close>.
\<close>

theorem loss_hinge_gen_decreasing:
  "loss_hinge_gen d = map_option uminus (torch_mean d)
   \<and> (d \<noteq> [] \<longrightarrow> loss_hinge_gen d = Some (- (sum_list d / real (length d))))
   \<and> (torch_mean a = Some ma \<and> torch_mean b = Some mb \<and> ma < mb
        \<longrightarrow> (\<exists>la lb. loss_hinge_gen a = Some la \<and> loss_hinge_gen b = Some lb \<and> lb < la))"
proof (intro conjI impI)
  show "loss_hinge_gen d = map_option uminus (torch_mean d)"
    by (simp add: loss_hinge_gen_def)
next
  assume "d \<noteq> []"
  then show "loss_hinge_gen d = Some (- (sum_list d / real (length d)))"
    by (simp add: loss_hinge_gen_def torch_mean_def)
next
  assume h: "torch_mean a = Some ma \<and> torch_mean b = Some mb \<and> ma < mb"
  then have "loss_hinge_gen a = Some (- ma)" and "loss_hinge_gen b = Some (- mb)"
    by (simp_all add: loss_hinge_gen_def)
  moreover have "- mb < - ma" using h by simp
  ultimately show "\<exists>la lb. loss_hinge_gen a = Some la \<and> loss_hinge_gen b = Some lb \<and> lb < la"
    by blast
qed

theorem loss_hinge_gen_decreasing_witness:
  "[1, 2] \<noteq> ([]::real list)
   \<and> torch_mean [1, 2] = Some (3/2) \<and> torch_mean [2, 4] = Some 3 \<and> (3/2::real) < 3
   \<and> loss_hinge_gen [1, 2] = Some (- (3/2)) \<and> loss_hinge_gen [2, 4] = Some (- 3)"
  using loss_hinge_gen_decreasing [of "[1, 2]" "[1, 2]" "3/2" "[2, 4]" 3]
  by (simp add: loss_hinge_gen_def torch_mean_def)

subsection \<open>Denormalisation\<close>

text \<open>
  C10, as stated for every input tensor, fails on a tensor with a NaN element:
  \<open>(NaN + 1) / 2\<close> is NaN and the clamp leaves NaN, which is not in the interval.
\<close>

theorem denorm_nan: "denorm [NaN] = [NaN] \<and> \<not> fl_le (Fin 0) NaN \<and> \<not> fl_le NaN (Fin 1)"
  by (simp add: denorm_def clamp_t_def)

text \<open>
  C10 (amended). \<open>denorm\<close> keeps the number of elements and maps each element \<open>v\<close> to
  \<open>(v + 1) / 2\<close> clamped to the interval from 0 to 1; for every input tensor with no
  NaN element, also one with elements outside \<open>[-1, 1]\<close> or infinite ones, every
  element of the result lies between 0 and 1.
\<close>

theorem denorm_range:
  "length (denorm x) = length x
   \<and> (\<forall>i<length x. denorm x ! i = fl_clamp 0 1 (fl_div (fl_add (x ! i) (Fin 1)) (Fin 2)))
   \<and> (NaN \<notin> set x \<longrightarrow> (\<forall>y\<in>set (denorm x). fl_le (Fin 0) y \<and> fl_le y (Fin 1)))"
proof (intro conjI allI impI ballI)
  show "length (denorm x) = length x"
    by (simp add: denorm_def clamp_t_def)
next
  fix i assume "i < length x"
  then show "denorm x ! i = fl_clamp 0 1 (fl_div (fl_add (x ! i) (Fin 1)) (Fin 2))"
    by (simp add: denorm_def clamp_t_def)
next
  fix y assume nan: "NaN \<notin> set x" and "y \<in> set (denorm x)"
  then obtain v where v: "v \<in> set x" and y: "y = fl_clamp 0 1 (fl_div (fl_add v (Fin 1)) (Fin 2))"
    by (auto simp: denorm_def clamp_t_def)
  from v nan have "v \<noteq> NaN" by auto
  from denorm_elem_range [OF this] show "fl_le (Fin 0) y" and "fl_le y (Fin 1)"
    unfolding y by simp_all
qed

theorem denorm_range_witness:
  "NaN \<notin> set [Fin (- 3), Fin 0, Fin 5, PInf]
   \<and> denorm [Fin (- 3), Fin 0, Fin 5, PInf] = [Fin 0, Fin (1/2), Fin 1, Fin 1]
   \<and> list_all (\<lambda>y. fl_le (Fin 0) y \<and> fl_le y (Fin 1)) (denorm [Fin (- 3), Fin 0, Fin 5, PInf])"
  using denorm_range [of "[Fin (- 3), Fin 0, Fin 5, PInf]"]
  by (simp add: denorm_def clamp_t_def)

subsection \<open>The discriminator phase\<close>

text \<open>
  C2, read as the optimizer step being taken on what all the backpropagations of the
  window accumulated after one zeroing, fails for two iterations: the gradient of the
  step holds the two backpropagations of the second iteration only.
\<close>

theorem d_phase_two_iterations:
  "map_sum id d_step_log (d_phase example_backend example_config 0 0 (1/2) example_sagan)
     = Inr [[Backprop 0 0 1 RealPass, Backprop 0 0 1 FakePass]]
   \<and> map_sum id d_step_log (d_phase example_backend example_config 0 0 (1/2) example_sagan)
     \<noteq> Inr [[Backprop 0 0 0 RealPass, Backprop 0 0 0 FakePass,
              Backprop 0 0 1 RealPass, Backprop 0 0 1 FakePass]]"
proof -
  have "d_iters example_config = 2" by (simp add: example_config_def)
  then have "nat (d_iters example_config) = Suc 1" by simp
  then show ?thesis
    using d_loop_last [of "1/2" 1 0 0 example_sagan]
    by (simp add: d_phase_def d_optimizer_step_def example_backend_def example_sagan_def)
qed

text \<open>
  C2 (amended). For every \<open>d_iters \<ge> 1\<close> (and a standard deviation that
  \<^verbatim>\<open>torch.normal\<close> accepts) the discriminator phase takes exactly one optimizer
  step, and that step is taken on the gradient accumulated from the real pass and the
  fake pass of the last iteration alone: every iteration starts by zeroing the
  gradients of both networks, so nothing from before the phase and nothing from the
  earlier iterations is left in it.
\<close>

theorem d_phase_last_iteration:
  assumes "1 \<le> d_iters cfg" and "0 \<le> std"
  shows "\<exists>s'. d_phase B cfg epoch step std s = Inr s'
     \<and> d_step_log s' = d_step_log s @
          [[Backprop epoch step (nat (d_iters cfg) - 1) RealPass,
            Backprop epoch step (nat (d_iters cfg) - 1) FakePass]]"
proof -
  obtain n where n: "nat (d_iters cfg) = Suc n"
    using assms(1) by (cases "nat (d_iters cfg)") auto
  show ?thesis
    using d_loop_last [OF assms(2), of n epoch step s]
    by (simp add: d_phase_def n d_optimizer_step_def split: prod.split)
qed

theorem d_phase_last_iteration_witness:
  "1 \<le> d_iters example_config \<and> (0::real) \<le> 1/2
   \<and> map_sum id d_step_log (d_phase example_backend example_config 0 3 (1/2) example_sagan)
       = Inr [[Backprop 0 3 1 RealPass, Backprop 0 3 1 FakePass]]"
proof -
  have h: "1 \<le> d_iters example_config" by (simp add: example_config_def)
  have n: "nat (d_iters example_config) - 1 = 1" by (simp add: example_config_def)
  from d_phase_last_iteration [OF h, of "1/2" example_backend 0 3 example_sagan]
  obtain s' where "d_phase example_backend example_config 0 3 (1/2) example_sagan = Inr s'"
    and "d_step_log s' = d_step_log example_sagan @ [[Backprop 0 3 1 RealPass, Backprop 0 3 1 FakePass]]"
    unfolding n by auto
  then show ?thesis using h by (simp add: example_sagan_def)
qed

subsection \<open>The number of epochs\<close>




subsection \<open>The step index of the annealing\<close>

text \<open>
  C9. In a run of \<^verbatim>\<open>train\<close> that returns, the standard deviations filled in are,
  epoch after epoch, the schedule evaluated at the step index within the epoch: the
  entry at position \<open>k * n + i\<close> (epoch number \<open>k\<close> of the run, step \<open>i\<close> of
  \<open>n\<close>) is the schedule at \<open>i\<close>. So for a positive horizon the first step of every
  epoch has the initial sigma again, however many steps have gone before.
\<close>

theorem noise_restarts_every_epoch:
  assumes "train B cfg n s = Inr s'" and "0 < inst_noise_sigma_iters cfg"
  shows "\<exists>epochs new. py_int_truediv (total_steps cfg) n = Inr epochs
           \<and> noise_log s' = noise_log s @ new
           \<and> length new = nat (epochs - start_epoch cfg) * n
           \<and> (\<forall>k < nat (epochs - start_epoch cfg). \<forall>i < n.
                 \<exists>v. inst_noise_sigma_curr (inst_noise_sigma cfg) (inst_noise_sigma_iters cfg) i = Inr v
                   \<and> new ! (k * n + i) = (start_epoch cfg + int k, i, v))
           \<and> (\<forall>k < nat (epochs - start_epoch cfg).
                 new ! (k * n) = (start_epoch cfg + int k, 0, inst_noise_sigma cfg))"
proof -
  let ?curr = "inst_noise_sigma_curr (inst_noise_sigma cfg) (inst_noise_sigma_iters cfg)"
  let ?row = "\<lambda>e. map (\<lambda>i. (e, i, ?curr i)) [0..<n]"
  from train_logs [OF assms(1)] obtain epochs new where
    ep: "py_int_truediv (total_steps cfg) n = Inr epochs"
    and nl: "noise_log s' = noise_log s @ new"
    and mp: "map (\<lambda>(e, i, v). (e, i, Inr v)) new
               = concat (map ?row (py_range (start_epoch cfg) epochs))"
    by blast
  have npos: "0 < n" using ep by (auto simp: py_int_truediv_def split: if_splits)
  have len: "length new = nat (epochs - start_epoch cfg) * n"
  proof -
    have "length new = length (map (\<lambda>(e, i, v). (e, i, Inr v :: py_error + real)) new)" by simp
    also have "\<dots> = length (py_range (start_epoch cfg) epochs) * n"
      unfolding mp by (rule concat_map_length) simp
    finally show ?thesis by (simp add: py_range_length)
  qed
  have entry: "\<exists>v. ?curr i = Inr v \<and> new ! (k * n + i) = (start_epoch cfg + int k, i, v)"
    if k: "k < nat (epochs - start_epoch cfg)" and i: "i < n" for k i
  proof -
    have "k * n + i < Suc k * n" using i by simp
    also have "\<dots> \<le> nat (epochs - start_epoch cfg) * n"
      using k by (intro mult_le_mono1) simp
    finally have lt: "k * n + i < length new" using len by simp
    have "map (\<lambda>(e, i, v). (e, i, Inr v :: py_error + real)) new ! (k * n + i)
          = ?row (py_range (start_epoch cfg) epochs ! k) ! i"
      unfolding mp by (rule concat_map_nth) (use k i in \<open>simp_all add: py_range_length\<close>)
    then have "(\<lambda>(e, i, v). (e, i, Inr v :: py_error + real)) (new ! (k * n + i))
          = (start_epoch cfg + int k, i, ?curr i)"
      using lt i k by (simp add: py_range_nth)
    then show ?thesis by (cases "new ! (k * n + i)") auto
  qed
  have first: "new ! (k * n) = (start_epoch cfg + int k, 0, inst_noise_sigma cfg)"
    if k: "k < nat (epochs - start_epoch cfg)" for k
    using entry [OF k npos] assms(2) by (simp add: inst_noise_sigma_curr_def)
  show ?thesis using ep nl len entry first by blast
qed

theorem noise_restarts_every_epoch_witness:
  "0 < inst_noise_sigma_iters example_config
   \<and> (\<exists>s'. train example_backend example_config 2 example_sagan = Inr s'
         \<and> length (noise_log s') = 4
         \<and> noise_log s' ! 0 = (0, 0, 1/2) \<and> noise_log s' ! 2 = (1, 0, 1/2))"
proof -
  have h: "0 < inst_noise_sigma_iters example_config" by (simp add: example_config_def)
  obtain s' where run: "train example_backend example_config 2 example_sagan = Inr s'"
    using train_total [of 2 example_config example_sagan example_backend]
    by (auto simp: example_config_def example_sagan_def start_epoch_def history_lengths_def)
  have ep: "py_int_truediv (total_steps example_config) 2 = Inr 2"
    by (simp add: py_int_truediv_def example_config_def)
  have st: "start_epoch example_config = 0" by (simp add: start_epoch_def example_config_def)
  have sg: "inst_noise_sigma example_config = 1/2" by (simp add: example_config_def)
  from noise_restarts_every_epoch [OF run h] obtain new where
    nl: "noise_log s' = noise_log example_sagan @ new"
    and len: "length new = 2 * 2"
    and first: "\<forall>k < 2. new ! (k * 2) = (int k, 0, 1/2)"
    unfolding ep st sg by auto
  have "new ! 0 = (0, 0, 1/2)" using first [rule_format, of 0] by simp
  moreover have "new ! 2 = (1, 0, 1/2)" using first [rule_format, of 1] by simp
  moreover have "noise_log s' = new" using nl by (simp add: example_sagan_def)
  ultimately show ?thesis using h run len by simp
qed

subsection \<open>Checkpoints\<close>




subsection \<open>Self-attention\<close>

text \<open>
  C3, as stated for every input tensor, fails on an input with a NaN element: the
  attention branch is NaN everywhere, \<open>0 * NaN\<close> is NaN, and the output is NaN at
  every position, also where the input is finite.
\<close>

theorem SelfAttn_gate_zero_nan:
  "gamma example_attn = Fin 0
   \<and> map_sum id elems (SelfAttn_forward example_attn nan_features)
       = Inr [NaN, NaN, NaN, NaN, NaN, NaN, NaN, NaN]
   \<and> SelfAttn_forward example_attn nan_features \<noteq> Inr nan_features"
proof -
  have g: "gamma example_attn = Fin 0"
    by (simp add: example_attn_def SelfAttn_init_def Let_def)
  have "SelfAttn_attention example_attn nan_features
          = Inr \<lparr>shape = [1, 8, 1, 1], elems = [NaN, NaN, NaN, NaN, NaN, NaN, NaN, NaN]\<rparr>"
    by (rule attention_nan_features)
  then have "SelfAttn_forward example_attn nan_features
          = Inr \<lparr>shape = [1, 8, 1, 1], elems = [NaN, NaN, NaN, NaN, NaN, NaN, NaN, NaN]\<rparr>"
    by (simp add: SelfAttn_forward_def g gate_add_def nan_features_def)
  then show ?thesis using g by (simp add: nan_features_def)
qed

text \<open>
  C3 (amended). \<^verbatim>\<open>SelfAttn.__init__\<close> sets the gate \<open>gamma\<close> to 0. With
  \<open>gamma = 0\<close>, in any module, for every (well-formed) input \<open>x\<close> on which every
  element of the attention branch is a finite number, whenever \<^verbatim>\<open>forward\<close> returns
  it returns exactly \<open>x\<close>; and on a freshly initialised module for \<open>c \<ge> 8\<close> channels
  it does return \<open>x\<close>, on every such input of shape \<open>[b, c, w, h]\<close> with \<open>b\<close>, \<open>w\<close>,
  \<open>h\<close> positive.
\<close>

theorem SelfAttn_identity_at_init:
  "gamma (SelfAttn_init c w_f b_f w_g b_g w_h b_h w_v b_v) = Fin 0
   \<and> (wf_tensor x \<and> gamma m = Fin 0 \<and> SelfAttn_attention m x = Inr vout
        \<and> list_all is_fin (elems vout) \<and> SelfAttn_forward m x = Inr y \<longrightarrow> y = x)
   \<and> (wf_tensor x \<and> shape x = [b, c, w, h] \<and> 8 \<le> c \<and> 0 < b \<and> 0 < w \<and> 0 < h
        \<and> SelfAttn_attention (SelfAttn_init c w_f b_f w_g b_g w_h b_h w_v b_v) x = Inr vout'
        \<and> list_all is_fin (elems vout')
        \<longrightarrow> SelfAttn_forward (SelfAttn_init c w_f b_f w_g b_g w_h b_h w_v b_v) x = Inr x)"
proof (intro conjI impI)
  show g: "gamma (SelfAttn_init c w_f b_f w_g b_g w_h b_h w_v b_v) = Fin 0"
    by (simp add: SelfAttn_init_def Let_def)
  show "y = x" if "wf_tensor x \<and> gamma m = Fin 0 \<and> SelfAttn_attention m x = Inr vout
        \<and> list_all is_fin (elems vout) \<and> SelfAttn_forward m x = Inr y"
    using that SelfAttn_forward_gate_closed by blast
  show "SelfAttn_forward (SelfAttn_init c w_f b_f w_g b_g w_h b_h w_v b_v) x = Inr x"
    if h: "wf_tensor x \<and> shape x = [b, c, w, h] \<and> 8 \<le> c \<and> 0 < b \<and> 0 < w \<and> 0 < h
        \<and> SelfAttn_attention (SelfAttn_init c w_f b_f w_g b_g w_h b_h w_v b_v) x = Inr vout'
        \<and> list_all is_fin (elems vout')"
  proof -
    let ?m = "SelfAttn_init c w_f b_f w_g b_g w_h b_h w_v b_v"
    have "?m = ?m\<lparr>gamma := Fin 0\<rparr>" by (simp only: SelfAttn_init_gamma)
    then obtain z where z: "SelfAttn_forward ?m x = Inr z"
      using SelfAttn_forward_ok [where x = x and b = b and c = c and w = w and h = h and m = ?m
          and gm = "Fin 0" and w_f = w_f and b_f = b_f and w_g = w_g and b_g = b_g and w_h = w_h
          and b_h = b_h and w_v = w_v and b_v = b_v] h by blast
    have "z = x" using SelfAttn_forward_gate_closed [OF _ g _ _ z] h by blast
    with z show ?thesis by simp
  qed
qed

theorem SelfAttn_identity_at_init_witness:
  "wf_tensor pixel_features \<and> gamma example_attn = Fin 0
   \<and> shape pixel_features = [1, 8, 1, 1] \<and> (8::nat) \<le> 8
   \<and> SelfAttn_attention example_attn pixel_features
       = Inr \<lparr>shape = [1, 8, 1, 1],
              elems = [Fin 29, Fin 29, Fin 29, Fin 29, Fin 29, Fin 29, Fin 29, Fin 29]\<rparr>
   \<and> list_all is_fin [Fin 29, Fin 29, Fin 29, Fin 29, Fin 29, Fin 29, Fin 29, Fin 29]
   \<and> SelfAttn_forward example_attn pixel_features = Inr pixel_features"
proof -
  let ?vout = "\<lparr>shape = [1, 8, 1, 1],
              elems = [Fin 29, Fin 29, Fin 29, Fin 29, Fin 29, Fin 29, Fin 29, Fin 29]\<rparr>"
  have at: "SelfAttn_attention example_attn pixel_features = Inr ?vout"
    by (rule attention_pixel_features)
  have h: "wf_tensor pixel_features \<and> shape pixel_features = [1, 8, 1, 1] \<and> (8::nat) \<le> 8
      \<and> (0::nat) < 1 \<and> (0::nat) < 1 \<and> (0::nat) < 1"
    by (simp add: pixel_features_def wf_tensor_def)
  have fin: "list_all is_fin (elems ?vout)" by simp
  have "SelfAttn_forward example_attn pixel_features = Inr pixel_features"
    using SelfAttn_identity_at_init [where c = 8 and x = pixel_features and b = 1 and w = 1
          and h = 1 and vout' = ?vout and w_f = "\<lambda>oc ic. Fin 1" and b_f = "\<lambda>oc. Fin 0"
          and w_g = "\<lambda>oc ic. Fin (1/2)" and b_g = "\<lambda>oc. Fin 1" and w_h = "\<lambda>oc ic. Fin 1"
          and b_h = "\<lambda>oc. Fin 0" and w_v = "\<lambda>oc ic. Fin (1/4)" and b_v = "\<lambda>oc. Fin 1"]
      h at fin
    unfolding example_attn_def by blast
  moreover have "gamma example_attn = Fin 0"
    by (simp add: example_attn_def SelfAttn_init_def Let_def)
  ultimately show ?thesis using h at by simp
qed

text \<open>
  C4. Whenever \<^verbatim>\<open>SelfAttn.forward\<close> returns, its output has the shape of its input;
  and for an input of shape \<open>[b, c, w, h]\<close> with \<open>c\<close> a positive multiple of 8 and
  \<open>b\<close>, \<open>w\<close>, \<open>h\<close> positive, a module built for \<open>c\<close> channels (whatever its weights
  and its gate have become) returns an output of shape \<open>[b, c, w, h]\<close>.
\<close>

theorem SelfAttn_forward_shape:
  "(SelfAttn_forward m x = Inr y \<longrightarrow> shape y = shape x)
   \<and> (shape x = [b, c, w, h] \<and> 8 dvd c \<and> 0 < c \<and> 0 < b \<and> 0 < w \<and> 0 < h
        \<longrightarrow> (\<exists>z. SelfAttn_forward ((SelfAttn_init c w_f b_f w_g b_g w_h b_h w_v b_v)\<lparr>gamma := gm\<rparr>) x = Inr z
               \<and> shape z = [b, c, w, h]))"
proof (intro conjI impI)
  assume "SelfAttn_forward m x = Inr y"
  from SelfAttn_forward_Inr [OF this] show "shape y = shape x" by blast
next
  let ?m = "(SelfAttn_init c w_f b_f w_g b_g w_h b_h w_v b_v)\<lparr>gamma := gm\<rparr>"
  assume h: "shape x = [b, c, w, h] \<and> 8 dvd c \<and> 0 < c \<and> 0 < b \<and> 0 < w \<and> 0 < h"
  then have "8 \<le> c" by (auto dest: dvd_imp_le)
  then obtain z where z: "SelfAttn_forward ?m x = Inr z"
    using SelfAttn_forward_ok [where x = x and b = b and c = c and w = w and h = h and m = ?m
          and gm = gm and w_f = w_f and b_f = b_f and w_g = w_g and b_g = b_g and w_h = w_h
          and b_h = b_h and w_v = w_v and b_v = b_v] h by blast
  from SelfAttn_forward_Inr [OF z] have "shape z = shape x" by blast
  with z h show "\<exists>z. SelfAttn_forward ?m x = Inr z \<and> shape z = [b, c, w, h]" by simp
qed

theorem SelfAttn_forward_shape_witness:
  "shape example_features = [1, 8, 1, 2] \<and> (8::nat) dvd 8
   \<and> (\<exists>z. SelfAttn_forward (example_attn\<lparr>gamma := Fin 3\<rparr>) example_features = Inr z
         \<and> shape z = [1, 8, 1, 2])"
proof -
  have h: "shape example_features = [1, 8, 1, 2] \<and> (8::nat) dvd 8 \<and> (0::nat) < 8
      \<and> (0::nat) < 1 \<and> (0::nat) < 1 \<and> (0::nat) < 2"
    by (simp add: example_features_def)
  have "\<exists>z. SelfAttn_forward (example_attn\<lparr>gamma := Fin 3\<rparr>) example_features = Inr z
         \<and> shape z = [1, 8, 1, 2]"
    unfolding example_attn_def
    using SelfAttn_forward_shape [where x = example_features and b = 1 and c = 8 and w = 1
          and h = 2 and gm = "Fin 3"] h by blast
  then show ?thesis using h by simp
qed

end
